theory Spec2Isabelle
  imports
    Complex_Main
    "HOL-Library.AList"
    "HOL-Library.Sublist"
    "HOL-Library.Char_ord"
    "HOL-Library.List_Lexorder"
begin

section \<open>Python values\<close>

text \<open>
  The profile, the onboarding answers and every JSON document of the program are dynamically
  typed Python values. They are embedded as the datatype below. A Python \<open>str\<close> is represented
  by its UTF-8 encoding, one HOL character per byte: equality, concatenation, prefix tests and
  the byte-wise (BINARY) collation of SQLite on TEXT columns are the same on the encoding as on
  the code points. A \<open>dict\<close> with string keys is an association list in insertion order, read
  through \<open>map_of\<close> and written with \<open>AList.update\<close> (an existing key keeps its place, a new one
  is appended, as in Python). A Python \<open>float\<close> constant is represented by the rational it
  denotes; the program never computes with floats.
\<close>

datatype pyval =
    PNone
  | PBool bool
  | PInt int
  | PFloat rat
  | PStr string
  | PList "pyval list"
  | PDict "(string \<times> pyval) list"

type_synonym pydict = "(string \<times> pyval) list"

datatype py_error =
    KeyError | TypeError | AttributeError | ValueError | JSONDecodeError | APIError
  | OverflowError

text \<open>Sequencing of computations that may raise: the first exception wins.\<close>

definition and_then :: "py_error + 'a \<Rightarrow> ('a \<Rightarrow> py_error + 'b) \<Rightarrow> py_error + 'b" where
  "and_then m f = (case m of Inl e \<Rightarrow> Inl e | Inr x \<Rightarrow> f x)"

text \<open>\<open>d[k]\<close>, \<open>d.get(k, default)\<close>, \<open>k in d\<close> and \<open>d[k] = v\<close>.\<close>

definition dict_index :: "(string \<times> 'v) list \<Rightarrow> string \<Rightarrow> py_error + 'v" where
  "dict_index d k = (case map_of d k of None \<Rightarrow> Inl KeyError | Some v \<Rightarrow> Inr v)"

definition dict_get :: "(string \<times> 'v) list \<Rightarrow> string \<Rightarrow> 'v \<Rightarrow> 'v" where
  "dict_get d k dflt = (case map_of d k of None \<Rightarrow> dflt | Some v \<Rightarrow> v)"

definition dict_contains :: "(string \<times> 'v) list \<Rightarrow> string \<Rightarrow> bool" where
  "dict_contains d k = (map_of d k \<noteq> None)"

definition dict_set :: "(string \<times> 'v) list \<Rightarrow> string \<Rightarrow> 'v \<Rightarrow> (string \<times> 'v) list" where
  "dict_set d k v = AList.update k v d"

text \<open>
  The characters of a \<open>str\<close>, each as a one-character \<open>str\<close>: the bytes are grouped by the
  width that the leading byte of a UTF-8 sequence announces.
\<close>

definition utf8_width :: "char \<Rightarrow> nat" where
  "utf8_width c =
     (let n = (of_char c :: nat)
      in if n < 0xC0 then 1 else if n < 0xE0 then 2 else if n < 0xF0 then 3 else 4)"

fun py_chars :: "string \<Rightarrow> string list" where
  "py_chars [] = []"
| "py_chars (c # cs) =
     (c # take (utf8_width c - 1) cs) # py_chars (drop (utf8_width c - 1) cs)"

text \<open>
  \<open>x += t\<close> for a \<open>str\<close> \<open>t\<close>: string concatenation, or the in-place extension of a list by
  the characters of \<open>t\<close>; every other left operand raises \<open>TypeError\<close>. The function
  returns the new value of \<open>x\<close>; that an extended list is the same object as before, also
  for whoever else holds it, is not part of the model.
\<close>

definition py_iadd_str :: "pyval \<Rightarrow> string \<Rightarrow> py_error + pyval" where
  "py_iadd_str x t =
     (case x of
        PStr s \<Rightarrow> Inr (PStr (s @ t))
      | PList xs \<Rightarrow> Inr (PList (xs @ map PStr (py_chars t)))
      | _ \<Rightarrow> Inl TypeError)"

section \<open>ai\_config.py\<close>

definition MODELS :: "(string \<times> string) list" where
  "MODELS =
     [(''daily_planning'', ''llama-3.3-70b-versatile''),
      (''weekly_review'', ''llama-3.1-70b-versatile''),
      (''quick_task'', ''llama-3.1-8b-instant''),
      (''motivational'', ''llama-3.1-8b-instant''),
      (''onboarding'', ''llama-3.3-70b-versatile'')]"

definition TEMPERATURES :: "(string \<times> rat) list" where
  "TEMPERATURES =
     [(''daily_planning'', 4 / 10),
      (''weekly_review'', 8 / 10),
      (''quick_task'', 5 / 10),
      (''motivational'', 11 / 10),
      (''onboarding'', 7 / 10)]"

definition MAX_TOKENS :: "(string \<times> int) list" where
  "MAX_TOKENS =
     [(''daily_planning'', 500),
      (''weekly_review'', 600),
      (''quick_task'', 150),
      (''motivational'', 200),
      (''onboarding'', 800)]"

definition msg_daily_planning :: string where
  "msg_daily_planning =
     ''You are an Islamic productivity coach specializing in time management for busy individuals.\<newline>'' @
     ''\<newline>'' @
     ''Your responses should:\<newline>'' @
     ''- Create realistic, time-blocked schedules\<newline>'' @
     ''- Prioritize spiritual growth (Quran, prayer times)\<newline>'' @
     ''- Acknowledge real-world constraints\<newline>'' @
     ''- Be encouraging and practical\<newline>'' @
     ''- Format as a clear schedule with times''"

definition msg_weekly_review :: string where
  "msg_weekly_review =
     ''You are a reflective productivity coach analyzing weekly progress.\<newline>'' @
     ''\<newline>'' @
     ''Your responses should:\<newline>'' @
     ''- Start by celebrating wins (even small ones)\<newline>'' @
     ''- Identify patterns in productivity\<newline>'' @
     ''- Suggest 2-3 specific adjustments for next week\<newline>'' @
     ''- Be constructive and encouraging, never critical\<newline>'' @
     ''- Reference principles of continuous improvement''"

definition msg_quick_task :: string where
  "msg_quick_task =
     ''You are a helpful productivity assistant for quick questions.\<newline>'' @
     ''\<newline>'' @
     ''Keep responses:\<newline>'' @
     ''- Brief (2-3 sentences maximum)\<newline>'' @
     ''- Immediately actionable\<newline>'' @
     ''- Positive and encouraging''"

definition msg_motivational :: string where
  "msg_motivational =
     ''You are an Islamic motivational speaker focused on productivity.\<newline>'' @
     ''\<newline>'' @
     ''Provide:\<newline>'' @
     ''- A relevant Quranic verse or Hadith (with translation)\<newline>'' @
     ''- Brief reflection on its meaning for productivity\<newline>'' @
     ''- One actionable reminder\<newline>'' @
     ''- Keep total response under 100 words''"

definition DEFAULT_SYSTEM_MESSAGES :: "(string \<times> string) list" where
  "DEFAULT_SYSTEM_MESSAGES =
     [(''daily_planning'', msg_daily_planning),
      (''weekly_review'', msg_weekly_review),
      (''quick_task'', msg_quick_task),
      (''motivational'', msg_motivational)]"

text \<open>
  An entry of \<open>LANGUAGES\<close>. The table of user-interface strings that each entry also carries
  is read by \<open>get_ui_string\<close> only and is left out.
\<close>

record language =
  lang_name :: string
  lang_code :: string
  ai_instruction :: string
  direction :: string

definition arabic_name :: string where
  "arabic_name =
     [CHR 0xD8, CHR 0xA7, CHR 0xD9, CHR 0x84, CHR 0xD8, CHR 0xB9, CHR 0xD8, CHR 0xB1,
      CHR 0xD8, CHR 0xA8, CHR 0xD9, CHR 0x8A, CHR 0xD8, CHR 0xA9]"

definition francais_name :: string where
  "francais_name = ''Fran'' @ [CHR 0xC3, CHR 0xA7] @ ''ais''"

definition LANGUAGES :: "(string \<times> language) list" where
  "LANGUAGES =
     [(''en'', \<lparr>lang_name = ''English'', lang_code = ''en'',
               ai_instruction = ''Respond in English.'', direction = ''ltr''\<rparr>),
      (''de'', \<lparr>lang_name = ''Deutsch'', lang_code = ''de'',
               ai_instruction = ''Antworte auf Deutsch.'', direction = ''ltr''\<rparr>),
      (''ar'', \<lparr>lang_name = arabic_name, lang_code = ''ar'',
               ai_instruction =
                 ''Respond in Arabic ('' @ arabic_name @ ''). Use proper Arabic script.'',
               direction = ''rtl''\<rparr>),
      (''fr'', \<lparr>lang_name = francais_name, lang_code = ''fr'',
               ai_instruction =
                 ''R'' @ [CHR 0xC3, CHR 0xA9] @ ''pondez en fran'' @ [CHR 0xC3, CHR 0xA7] @ ''ais.'',
               direction = ''ltr''\<rparr>)]"

definition get_model :: "string \<Rightarrow> py_error + string" where
  "get_model feature =
     and_then (dict_index MODELS ''quick_task'') (\<lambda>dflt.
     Inr (dict_get MODELS feature dflt))"

definition get_temperature :: "string \<Rightarrow> rat" where
  "get_temperature feature = dict_get TEMPERATURES feature (7 / 10)"

definition get_max_tokens :: "string \<Rightarrow> int" where
  "get_max_tokens feature = dict_get MAX_TOKENS feature 300"

definition get_system_message :: "string \<Rightarrow> py_error + string" where
  "get_system_message feature =
     and_then (dict_index DEFAULT_SYSTEM_MESSAGES ''quick_task'') (\<lambda>dflt.
     Inr (dict_get DEFAULT_SYSTEM_MESSAGES feature dflt))"

definition get_language_instruction :: "string \<Rightarrow> py_error + string" where
  "get_language_instruction language_code =
     and_then (dict_index LANGUAGES ''en'') (\<lambda>dflt.
     Inr (ai_instruction (dict_get LANGUAGES language_code dflt)))"

text \<open>
  \<open>get_language_code\<close> looks its argument up in a dict: a list or a dict as the argument is
  unhashable and raises \<open>TypeError\<close>; any other value that is not one of the four names gives
  the code of English.
\<close>

definition language_mapping :: "(string \<times> string) list" where
  "language_mapping =
     [(''English'', ''en''),
      (''Deutsch'', ''de''),
      (arabic_name @ '' (Arabic)'', ''ar''),
      (francais_name, ''fr'')]"

definition get_language_code :: "pyval \<Rightarrow> py_error + string" where
  "get_language_code language_name =
     (case language_name of
        PStr s \<Rightarrow> Inr (dict_get language_mapping s ''en'')
      | PList _ \<Rightarrow> Inl TypeError
      | PDict _ \<Rightarrow> Inl TypeError
      | _ \<Rightarrow> Inr ''en'')"

record ai_config =
  model :: string
  temperature :: rat
  max_tokens :: int
  system_message :: pyval

text \<open>
  \<open>get_ai_config\<close> has two conditional statements, each a definition of its own here. The
  first takes the personalised instruction if the profile has one, else the default of the
  feature. The test \<open>user_profile and ...\<close> of the source fails for \<open>None\<close> and for the
  empty dict.
\<close>

definition select_system_message :: "string \<Rightarrow> pydict option \<Rightarrow> py_error + pyval" where
  "select_system_message feature user_profile =
     (case user_profile of
        Some d \<Rightarrow>
          if d \<noteq> [] \<and> dict_contains d (''system_message_'' @ feature)
          then dict_index d (''system_message_'' @ feature)
          else and_then (get_system_message feature) (\<lambda>s. Inr (PStr s))
      | None \<Rightarrow> and_then (get_system_message feature) (\<lambda>s. Inr (PStr s)))"

text \<open>
  The second appends the language instruction, under the guard of the source: a non-empty
  profile that has the key \<open>onboarding_data\<close>. Its value must have a \<open>get\<close> method, that
  is, be a dict; anything else raises \<open>AttributeError\<close>.
\<close>

definition add_language_instruction :: "pydict option \<Rightarrow> pyval \<Rightarrow> py_error + pyval" where
  "add_language_instruction user_profile message =
     (case user_profile of
        Some d \<Rightarrow>
          if d \<noteq> [] \<and> dict_contains d ''onboarding_data''
          then
            and_then (dict_index d ''onboarding_data'') (\<lambda>od.
            case od of
              PDict answers \<Rightarrow>
                and_then (get_language_code (dict_get answers ''language'' (PStr ''English''))) (\<lambda>language_code.
                and_then (get_language_instruction language_code) (\<lambda>language_instruction.
                py_iadd_str message (''\<newline>\<newline>IMPORTANT: '' @ language_instruction)))
            | _ \<Rightarrow> Inl AttributeError)
          else Inr message
      | None \<Rightarrow> Inr message)"

definition get_ai_config :: "string \<Rightarrow> pydict option \<Rightarrow> py_error + ai_config" where
  "get_ai_config feature user_profile =
     and_then (get_model feature) (\<lambda>m.
     and_then (select_system_message feature user_profile) (\<lambda>message.
     and_then (add_language_instruction user_profile message) (\<lambda>message'.
     Inr \<lparr>model = m,
          temperature = get_temperature feature,
          max_tokens = get_max_tokens feature,
          system_message = message'\<rparr>)))"

text \<open>
  The profiles on which the resolution of a configuration does not raise. They are named
  here for the statements about \<open>get_ai_config\<close>; the source has no such check.
  A value is hashable unless it is a list or a dict. The entry \<open>onboarding_data\<close> of a
  profile, when there is one, must be a dict whose language is hashable. A personalised
  instruction that is neither a string nor a list cannot take the language instruction, so
  it is accepted only in a profile without \<open>onboarding_data\<close>.
\<close>

definition py_hashable :: "pyval \<Rightarrow> bool" where
  "py_hashable v = (case v of PList _ \<Rightarrow> False | PDict _ \<Rightarrow> False | _ \<Rightarrow> True)"

definition onboarding_data_ok :: "pydict \<Rightarrow> bool" where
  "onboarding_data_ok profile =
     (case map_of profile ''onboarding_data'' of
        None \<Rightarrow> True
      | Some (PDict answers) \<Rightarrow> py_hashable (dict_get answers ''language'' (PStr ''English''))
      | Some _ \<Rightarrow> False)"

definition override_ok :: "string \<Rightarrow> pydict \<Rightarrow> bool" where
  "override_ok feature profile =
     (case map_of profile (''system_message_'' @ feature) of
        None \<Rightarrow> True
      | Some (PStr _) \<Rightarrow> True
      | Some (PList _) \<Rightarrow> True
      | Some _ \<Rightarrow> map_of profile ''onboarding_data'' = None)"

definition resolvable :: "string \<Rightarrow> pydict option \<Rightarrow> bool" where
  "resolvable feature user_profile =
     (case user_profile of
        None \<Rightarrow> True
      | Some profile \<Rightarrow> onboarding_data_ok profile \<and> override_ok feature profile)"

text \<open>The instruction that \<open>get_language_instruction\<close> returns for a code.\<close>

definition language_directive :: "string \<Rightarrow> string" where
  "language_directive code =
     ai_instruction (dict_get LANGUAGES code
       \<lparr>lang_name = ''English'', lang_code = ''en'',
        ai_instruction = ''Respond in English.'', direction = ''ltr''\<rparr>)"

text \<open>The profile that the test at the end of the module resolves a configuration for.\<close>

definition mock_profile :: pydict where
  "mock_profile =
     [(''system_message_daily_planning'', PStr ''You are a coach for busy parents...''),
      (''onboarding_data'', PDict [(''language'', PStr ''Deutsch'')])]"

section \<open>onboarding.py\<close>

text \<open>
  What the program takes from the Python library and from its environment is a parameter of
  the model: \<open>py_str\<close> is the built-in \<open>str()\<close> on values other than strings (used by the
  f-strings), \<open>json_loads\<close> is \<open>json.loads\<close> with \<open>None\<close> for a text it rejects, and
  \<open>json_dumps\<close> is \<open>json.dumps\<close>. \<open>sqlite_real\<close> is what the \<open>sqlite3\<close> module and SQLite make
  of a Python value that is bound to a column declared \<open>REAL\<close>: the value that the column
  gives back when it is read (a float comes back as the double it is, an integer as a double,
  a NaN as \<open>None\<close>), or the exception that the binding raises. The clock reading
  \<open>datetime.now().isoformat()\<close> is the argument \<open>now\<close> of each operation that takes one.
  Printing is not modelled.
\<close>

record pylib =
  py_str :: "pyval \<Rightarrow> string"
  json_loads :: "string \<Rightarrow> pyval option"
  json_dumps :: "pyval \<Rightarrow> string"
  sqlite_real :: "pyval \<Rightarrow> py_error + pyval"




text \<open>
  \<open>str.strip()\<close>: the white space of Python, as the UTF-8 encodings of the code points for
  which \<open>str.isspace\<close> holds.
\<close>

definition whitespace :: "string list" where
  "whitespace =
     [[CHR 0x09], [CHR 0x0A], [CHR 0x0B], [CHR 0x0C], [CHR 0x0D],
      [CHR 0x1C], [CHR 0x1D], [CHR 0x1E], [CHR 0x1F], [CHR 0x20],
      [CHR 0xC2, CHR 0x85], [CHR 0xC2, CHR 0xA0], [CHR 0xE1, CHR 0x9A, CHR 0x80],
      [CHR 0xE2, CHR 0x80, CHR 0x80], [CHR 0xE2, CHR 0x80, CHR 0x81],
      [CHR 0xE2, CHR 0x80, CHR 0x82], [CHR 0xE2, CHR 0x80, CHR 0x83],
      [CHR 0xE2, CHR 0x80, CHR 0x84], [CHR 0xE2, CHR 0x80, CHR 0x85],
      [CHR 0xE2, CHR 0x80, CHR 0x86], [CHR 0xE2, CHR 0x80, CHR 0x87],
      [CHR 0xE2, CHR 0x80, CHR 0x88], [CHR 0xE2, CHR 0x80, CHR 0x89],
      [CHR 0xE2, CHR 0x80, CHR 0x8A], [CHR 0xE2, CHR 0x80, CHR 0xA8],
      [CHR 0xE2, CHR 0x80, CHR 0xA9], [CHR 0xE2, CHR 0x80, CHR 0xAF],
      [CHR 0xE2, CHR 0x81, CHR 0x9F], [CHR 0xE3, CHR 0x80, CHR 0x80]]"

definition py_isspace :: "string \<Rightarrow> bool" where
  "py_isspace c = (c \<in> set whitespace)"

definition py_strip :: "string \<Rightarrow> string" where
  "py_strip s =
     concat (rev (dropWhile py_isspace (rev (dropWhile py_isspace (py_chars s)))))"

text \<open>
  \<open>content.split("```")[1]\<close> for a content that starts with the fence: the text between the
  opening fence and the next one, or the end.
\<close>

fun upto_fence :: "string \<Rightarrow> string" where
  "upto_fence [] = []"
| "upto_fence (c # cs) = (if prefix ''```'' (c # cs) then [] else c # upto_fence cs)"

definition strip_code_fence :: "string \<Rightarrow> string" where
  "strip_code_fence content =
     (if prefix ''```'' content
      then (let content1 = upto_fence (drop 3 content);
                content2 = (if prefix ''json'' content1 then drop 4 content1 else content1)
            in py_strip content2)
      else content)"












fun validate_fields :: "string list \<Rightarrow> pydict \<Rightarrow> bool" where
  "validate_fields [] profile = True"
| "validate_fields (field # rest) profile =
     (if \<not> dict_contains profile field then False else validate_fields rest profile)"


text \<open>
  The answers on which neither \<open>generate_user_profile\<close> nor \<open>get_default_profile\<close> raises
  while it reads them: the language is hashable, and the goals, if they are a list, are
  strings, so that \<open>join\<close> accepts them. The source has no such check; the predicate is
  named here for the statements about the two functions.
\<close>

definition is_str :: "pyval \<Rightarrow> bool" where
  "is_str v = (case v of PStr _ \<Rightarrow> True | _ \<Rightarrow> False)"




subsection \<open>Concrete inputs\<close>



definition incomplete_response :: string where
  \<open>incomplete_response =
     ''{"system_message_daily_planning": "Plan the day.", '' @
     ''"system_message_weekly_review": "Review the week.", '' @
     ''"key_focus_areas": ["Career development"], '' @
     ''"time_block_size": 30, '' @
     ''"islamic_emphasis": "medium"}''\<close>

definition incomplete_object :: pydict where
  "incomplete_object =
     [(''system_message_daily_planning'', PStr ''Plan the day.''),
      (''system_message_weekly_review'', PStr ''Review the week.''),
      (''key_focus_areas'', PList [PStr ''Career development'']),
      (''time_block_size'', PInt 30),
      (''islamic_emphasis'', PStr ''medium'')]"

definition stale_profile :: pydict where
  "stale_profile = [(''coaching_tone'', PStr ''calm''), (''db_id'', PInt 99)]"

definition stale_document :: string where
  \<open>stale_document = ''{"coaching_tone": "calm", "db_id": 99}''\<close>

definition malformed_profile :: pydict where
  "malformed_profile =
     [(''system_message_daily_planning'', PStr ''You are a coach for busy parents...''),
      (''onboarding_data'', PStr ''Deutsch'')]"

definition example_lib :: pylib where
  "example_lib =
     \<lparr>py_str = (\<lambda>v. case v of
                  PNone \<Rightarrow> ''None''
                | PBool b \<Rightarrow> (if b then ''True'' else ''False'')
                | _ \<Rightarrow> []),
      json_loads = (\<lambda>s. if s = incomplete_response then Some (PDict incomplete_object)
                        else if s = stale_document then Some (PDict stale_profile)
                        else None),
      json_dumps = (\<lambda>v. if v = PDict incomplete_object then incomplete_response
                        else if v = PDict stale_profile then stale_document
                        else ''null''),
      sqlite_real = (\<lambda>v. if v = PFloat 2 \<or> v = PFloat 3 then Inr v else Inl TypeError)\<rparr>"


definition example_now :: string where
  "example_now = ''2024-12-16T10:00:00.123456''"



section \<open>database.py\<close>

text \<open>
  The SQLite file is modelled by the contents of its four tables, each a list of rows in
  insertion order, and by the counter that \<open>AUTOINCREMENT\<close> keeps for each table with such
  a key. The schema declares no uniqueness other than the primary keys, and SQLite does not
  enforce the foreign keys unless asked to, which the program never does. A TEXT column
  holds the string that was written; \<open>profile_data\<close> holds the output of \<open>json.dumps\<close>.
  A column declared \<open>REAL\<close> holds the value that it gives back, see \<open>sqlite_real\<close>.
  SQLite integers have 64 bits: a Python integer outside that range cannot be bound to a
  statement, and the call raises \<open>OverflowError\<close> before anything is written. The counters
  of the model are unbounded. A call that raises commits nothing, so it leaves the file as
  it was.
\<close>

definition sqlite_integer :: "int \<Rightarrow> bool" where
  "sqlite_integer i = (- (2 ^ 63) \<le> i \<and> i < 2 ^ 63)"

record profile_row =
  profile_id :: int
  profile_data :: string
  profile_created_at :: string
  profile_updated_at :: string
  is_active :: int

record plan_row =
  plan_id :: int
  plan_user_id :: int
  plan_date :: string
  plan_content :: string
  plan_available_hours :: pyval
  plan_created_at :: string

record review_row =
  review_id :: int
  review_user_id :: int
  review_week_start :: string
  review_week_end :: string
  review_content :: string
  review_created_at :: string

record store =
  user_profiles :: "profile_row list"
  user_profiles_seq :: int
  daily_plans :: "plan_row list"
  daily_plans_seq :: int
  weekly_reviews :: "review_row list"
  weekly_reviews_seq :: int
  app_metadata :: "(string \<times> string \<times> string) list"

text \<open>The file right after the \<open>CREATE TABLE\<close> statements: every table is empty.\<close>

definition empty_store :: store where
  "empty_store =
     \<lparr>user_profiles = [], user_profiles_seq = 0,
      daily_plans = [], daily_plans_seq = 0,
      weekly_reviews = [], weekly_reviews_seq = 0,
      app_metadata = []\<rparr>"

definition DB_VERSION :: string where
  "DB_VERSION = ''1''"

text \<open>
  \<open>init_database\<close>: the tables exist already (\<open>IF NOT EXISTS\<close>), and \<open>INSERT OR REPLACE\<close>
  removes the row of the key, if any, and inserts the new one.
\<close>

definition init_database :: "string \<Rightarrow> store \<Rightarrow> store" where
  "init_database now s =
     s\<lparr>app_metadata :=
         filter (\<lambda>row. fst row \<noteq> ''db_version'') (app_metadata s)
           @ [(''db_version'', DB_VERSION, now)]\<rparr>"

text \<open>\<open>reset_database\<close> deletes the file and initialises a new one.\<close>

definition reset_database :: "string \<Rightarrow> store \<Rightarrow> store" where
  "reset_database now s = init_database now empty_store"

definition save_user_profile :: "pylib \<Rightarrow> string \<Rightarrow> pydict \<Rightarrow> store \<Rightarrow> int \<times> store" where
  "save_user_profile lib now profile s =
     (let deactivated = map (\<lambda>row. if is_active row = 1 then row\<lparr>is_active := 0\<rparr> else row)
                          (user_profiles s);
          user_id = user_profiles_seq s + 1;
          new_row = \<lparr>profile_id = user_id,
                     profile_data = json_dumps lib (PDict profile),
                     profile_created_at = now,
                     profile_updated_at = now,
                     is_active = 1\<rparr>
      in (user_id, s\<lparr>user_profiles := deactivated @ [new_row], user_profiles_seq := user_id\<rparr>))"

text \<open>
  \<open>ORDER BY key DESC LIMIT 1\<close> returns a row whose key is greatest among the rows selected.
  SQL leaves open which one when several rows have that key, so a query is modelled by the
  list of the rows it may return: \<open>first_by_desc\<close> keeps the rows with the greatest key.
  TEXT values are compared byte by byte, which is the order of \<open>string\<close> here.
\<close>

definition first_by_desc :: "('r \<Rightarrow> string) \<Rightarrow> 'r list \<Rightarrow> 'r list" where
  "first_by_desc key rows = filter (\<lambda>row. \<forall>other \<in> set rows. key other \<le> key row) rows"

definition active_rows :: "store \<Rightarrow> profile_row list" where
  "active_rows s =
     first_by_desc profile_created_at (filter (\<lambda>row. is_active row = 1) (user_profiles s))"

text \<open>
  What \<open>get_active_user_profile\<close> does with the row it fetched: the parse may fail, and the
  three assignments need a dict.
\<close>

definition profile_of_row :: "pylib \<Rightarrow> profile_row \<Rightarrow> py_error + pydict option" where
  "profile_of_row lib row =
     (case json_loads lib (profile_data row) of
        None \<Rightarrow> Inl JSONDecodeError
      | Some (PDict profile) \<Rightarrow>
          Inr (Some (dict_set (dict_set (dict_set profile
                 ''db_id'' (PInt (profile_id row)))
                 ''db_created_at'' (PStr (profile_created_at row)))
                 ''db_updated_at'' (PStr (profile_updated_at row))))
      | Some _ \<Rightarrow> Inl TypeError)"

text \<open>
  The outcomes that a call of \<open>get_active_user_profile\<close> may have: a single one unless
  several active rows share the greatest creation time.
\<close>

definition get_active_user_profile :: "pylib \<Rightarrow> store \<Rightarrow> (py_error + pydict option) list" where
  "get_active_user_profile lib s =
     (case active_rows s of
        [] \<Rightarrow> [Inr None]
      | row # rows \<Rightarrow> map (profile_of_row lib) (row # rows))"

text \<open>The file after a call: as the call left it, or as it was when the call raised.\<close>

definition store_after :: "py_error + 'a \<times> store \<Rightarrow> store \<Rightarrow> store" where
  "store_after outcome s = (case outcome of Inl e \<Rightarrow> s | Inr (result, s') \<Rightarrow> s')"

definition update_user_profile ::
  "pylib \<Rightarrow> string \<Rightarrow> int \<Rightarrow> pydict \<Rightarrow> store \<Rightarrow> py_error + bool \<times> store" where
  "update_user_profile lib now user_id profile s =
     (if \<not> sqlite_integer user_id then Inl OverflowError
      else
        (let updated = map (\<lambda>row. if profile_id row = user_id
                                  then row\<lparr>profile_data := json_dumps lib (PDict profile),
                                           profile_updated_at := now\<rparr>
                                  else row)
                         (user_profiles s);
             rowcount = length (filter (\<lambda>row. profile_id row = user_id) (user_profiles s));
             success = (rowcount > 0)
         in Inr (success, s\<lparr>user_profiles := updated\<rparr>)))"

text \<open>
  The parameters of the \<open>INSERT\<close> are bound in their order: the owner first, the hours
  after the texts.
\<close>

definition save_daily_plan ::
  "pylib \<Rightarrow> string \<Rightarrow> int \<Rightarrow> string \<Rightarrow> string \<Rightarrow> pyval \<Rightarrow> store \<Rightarrow> py_error + int \<times> store" where
  "save_daily_plan lib now user_id date content hours s =
     (if \<not> sqlite_integer user_id then Inl OverflowError
      else
        and_then (sqlite_real lib hours) (\<lambda>stored.
        let new_id = daily_plans_seq s + 1;
            new_row = \<lparr>plan_id = new_id,
                       plan_user_id = user_id,
                       plan_date = date,
                       plan_content = content,
                       plan_available_hours = stored,
                       plan_created_at = now\<rparr>
        in Inr (new_id, s\<lparr>daily_plans := daily_plans s @ [new_row], daily_plans_seq := new_id\<rparr>)))"

definition matching_plans :: "store \<Rightarrow> int \<Rightarrow> string \<Rightarrow> plan_row list" where
  "matching_plans s user_id date =
     filter (\<lambda>row. plan_user_id row = user_id \<and> plan_date row = date) (daily_plans s)"

definition plan_dict :: "string \<Rightarrow> plan_row \<Rightarrow> pydict" where
  "plan_dict date row =
     [(''id'', PInt (plan_id row)),
      (''plan_content'', PStr (plan_content row)),
      (''available_hours'', plan_available_hours row),
      (''created_at'', PStr (plan_created_at row)),
      (''date'', PStr date)]"

text \<open>
  The outcomes that a call of \<open>get_daily_plan\<close> may have; \<open>Inr None\<close> is the absence of a
  plan.
\<close>

definition get_daily_plan :: "store \<Rightarrow> int \<Rightarrow> string \<Rightarrow> (py_error + pydict option) list" where
  "get_daily_plan s user_id date =
     (if \<not> sqlite_integer user_id then [Inl OverflowError]
      else
        (case first_by_desc plan_created_at (matching_plans s user_id date) of
           [] \<Rightarrow> [Inr None]
         | row # rows \<Rightarrow> map (\<lambda>r. Inr (Some (plan_dict date r))) (row # rows)))"

definition save_weekly_review ::
  "string \<Rightarrow> int \<Rightarrow> string \<Rightarrow> string \<Rightarrow> string \<Rightarrow> store \<Rightarrow> py_error + int \<times> store" where
  "save_weekly_review now user_id week_start week_end content s =
     (if \<not> sqlite_integer user_id then Inl OverflowError
      else
        (let new_id = weekly_reviews_seq s + 1;
             new_row = \<lparr>review_id = new_id,
                        review_user_id = user_id,
                        review_week_start = week_start,
                        review_week_end = week_end,
                        review_content = content,
                        review_created_at = now\<rparr>
         in Inr (new_id,
                 s\<lparr>weekly_reviews := weekly_reviews s @ [new_row], weekly_reviews_seq := new_id\<rparr>)))"

text \<open>
  The operations of the module that write to the file, each with its arguments and the clock
  reading of the call, and the states of the store that sequences of them reach from the
  empty one. The remaining functions of the module only read.
\<close>

datatype db_op =
    InitDatabase string
  | ResetDatabase string
  | SaveUserProfile string pydict
  | UpdateUserProfile string int pydict
  | SaveDailyPlan string int string string pyval
  | SaveWeeklyReview string int string string string

fun exec_op :: "pylib \<Rightarrow> db_op \<Rightarrow> store \<Rightarrow> store" where
  "exec_op lib (InitDatabase now) s = init_database now s"
| "exec_op lib (ResetDatabase now) s = reset_database now s"
| "exec_op lib (SaveUserProfile now profile) s = snd (save_user_profile lib now profile s)"
| "exec_op lib (UpdateUserProfile now user_id profile) s =
     store_after (update_user_profile lib now user_id profile s) s"
| "exec_op lib (SaveDailyPlan now user_id date content hours) s =
     store_after (save_daily_plan lib now user_id date content hours s) s"
| "exec_op lib (SaveWeeklyReview now user_id week_start week_end content) s =
     store_after (save_weekly_review now user_id week_start week_end content s) s"

fun run :: "pylib \<Rightarrow> db_op list \<Rightarrow> store \<Rightarrow> store" where
  "run lib [] s = s"
| "run lib (op # ops) s = run lib ops (exec_op lib op s)"

definition active_count :: "store \<Rightarrow> nat" where
  "active_count s = length (filter (\<lambda>row. is_active row = 1) (user_profiles s))"

subsection \<open>Concrete clock readings\<close>

text \<open>
  \<open>datetime.now()\<close> is the local wall-clock time. Two readings taken in this order on a
  night when the clocks are set back from three to two: the later call reads the earlier
  time.
\<close>

definition clock_before_shift :: string where
  "clock_before_shift = ''2024-10-27T02:59:59.500000''"

definition clock_after_shift :: string where
  "clock_after_shift = ''2024-10-27T02:00:00.250000''"

subsection \<open>The language instructions by language\<close>

text \<open>
  The instruction that the statement about the language instruction names for each
  language, and the instruction that it names as selected for a feature. The two
  definitions follow the words of that statement, not the source; the theorem compares
  them with what \<open>get_ai_config\<close> computes.
\<close>

definition expected_directive :: "pyval \<Rightarrow> string" where
  "expected_directive language =
     (if language = PStr ''Deutsch'' then ''Antworte auf Deutsch.''
      else if language = PStr (arabic_name @ '' (Arabic)'')
        then ''Respond in Arabic ('' @ arabic_name @ ''). Use proper Arabic script.''
      else if language = PStr francais_name
        then ''R'' @ [CHR 0xC3, CHR 0xA9] @ ''pondez en fran'' @ [CHR 0xC3, CHR 0xA7] @ ''ais.''
      else ''Respond in English.'')"

definition expected_instruction :: "string \<Rightarrow> pydict \<Rightarrow> string" where
  "expected_instruction feature profile =
     (case map_of profile (''system_message_'' @ feature) of
        Some (PStr override) \<Rightarrow> override
      | _ \<Rightarrow> dict_get DEFAULT_SYSTEM_MESSAGES feature msg_quick_task)"

definition override_is_text :: "string \<Rightarrow> pydict \<Rightarrow> bool" where
  "override_is_text feature profile =
     (case map_of profile (''system_message_'' @ feature) of
        None \<Rightarrow> True
      | Some v \<Rightarrow> is_str v)"

section \<open>Basic facts\<close>

lemma and_then_Inr [simp]: "and_then (Inr x) f = f x"
  by (simp add: and_then_def)

lemma and_then_Inl [simp]: "and_then (Inl e) f = Inl e"
  by (simp add: and_then_def)

text \<open>The three look-ups with a default taken from the table itself never raise.\<close>

lemma get_model_total:
  "get_model feature = Inr (dict_get MODELS feature ''llama-3.1-8b-instant'')"
  by (simp add: get_model_def dict_index_def MODELS_def)

lemma get_system_message_total:
  "get_system_message feature = Inr (dict_get DEFAULT_SYSTEM_MESSAGES feature msg_quick_task)"
  by (simp add: get_system_message_def dict_index_def DEFAULT_SYSTEM_MESSAGES_def)

lemma get_language_instruction_total:
  "get_language_instruction code = Inr (language_directive code)"
  by (simp add: get_language_instruction_def language_directive_def dict_index_def LANGUAGES_def)

lemma get_language_code_hashable:
  "py_hashable v \<Longrightarrow> \<exists>code. get_language_code v = Inr code"
  by (cases v) (simp_all add: py_hashable_def get_language_code_def)

lemma get_language_code_unhashable:
  "\<not> py_hashable v \<Longrightarrow> get_language_code v = Inl TypeError"
  by (cases v) (simp_all add: py_hashable_def get_language_code_def)

lemma select_override:
  "map_of profile (''system_message_'' @ feature) = Some v \<Longrightarrow>
   select_system_message feature (Some profile) = Inr v"
  by (auto simp: select_system_message_def dict_contains_def dict_index_def)

lemma select_default:
  "map_of profile (''system_message_'' @ feature) = None \<Longrightarrow>
   select_system_message feature (Some profile) =
     Inr (PStr (dict_get DEFAULT_SYSTEM_MESSAGES feature msg_quick_task))"
  by (simp add: select_system_message_def dict_contains_def get_system_message_total)

lemma select_None:
  "select_system_message feature None =
     Inr (PStr (dict_get DEFAULT_SYSTEM_MESSAGES feature msg_quick_task))"
  by (simp add: select_system_message_def get_system_message_total)

lemma add_language_absent:
  "map_of profile ''onboarding_data'' = None \<Longrightarrow>
   add_language_instruction (Some profile) message = Inr message"
  by (simp add: add_language_instruction_def dict_contains_def)

lemma add_language_None: "add_language_instruction None message = Inr message"
  by (simp add: add_language_instruction_def)

lemma add_language_present:
  "map_of profile ''onboarding_data'' = Some (PDict answers) \<Longrightarrow>
   get_language_code (dict_get answers ''language'' (PStr ''English'')) = Inr code \<Longrightarrow>
   add_language_instruction (Some profile) message =
     py_iadd_str message (''\<newline>\<newline>IMPORTANT: '' @ language_directive code)"
  by (auto simp: add_language_instruction_def dict_contains_def dict_index_def
      get_language_instruction_total)

lemma get_ai_config_unfold:
  "get_ai_config feature user_profile =
     and_then (select_system_message feature user_profile) (\<lambda>message.
     and_then (add_language_instruction user_profile message) (\<lambda>message'.
     Inr \<lparr>model = dict_get MODELS feature ''llama-3.1-8b-instant'',
          temperature = get_temperature feature,
          max_tokens = get_max_tokens feature,
          system_message = message'\<rparr>))"
  by (simp add: get_ai_config_def get_model_total)

lemma get_ai_config_None:
  "get_ai_config feature None =
     Inr \<lparr>model = dict_get MODELS feature ''llama-3.1-8b-instant'',
          temperature = get_temperature feature,
          max_tokens = get_max_tokens feature,
          system_message = PStr (dict_get DEFAULT_SYSTEM_MESSAGES feature msg_quick_task)\<rparr>"
  by (simp add: get_ai_config_unfold select_None add_language_None)

section \<open>The configuration of a feature that the tables do not have\<close>

text \<open>
  Claim C3 says that the configuration of a feature name outside the catalogue equals the
  one of \<open>quick_task\<close> in all four fields. It does not: \<open>get_temperature\<close> and
  \<open>get_max_tokens\<close> have defaults of their own, 0.7 and 300, where \<open>quick_task\<close> has 0.5
  and 150. The configurations of \<open>unknown_feature_xyz\<close> and of \<open>quick_task\<close> differ.
\<close>

theorem unknown_feature_differs_from_quick_task:
  "get_ai_config ''unknown_feature_xyz'' None \<noteq> get_ai_config ''quick_task'' None"
  by (simp add: get_ai_config_None get_temperature_def dict_get_def TEMPERATURES_def)

text \<open>
  Claim C3 as the code has it: for every feature name that is not a key of the tables, the
  model and the system message are those of \<open>quick_task\<close>, the temperature is 0.7 and the
  token limit is 300, whereas \<open>quick_task\<close> itself has 0.5 and 150.
\<close>

theorem unknown_feature_fallback:
  assumes "feature \<notin> set (map fst MODELS)"
  shows "get_ai_config feature None =
           Inr \<lparr>model = ''llama-3.1-8b-instant'', temperature = 7 / 10, max_tokens = 300,
                system_message = PStr msg_quick_task\<rparr>
       \<and> get_ai_config ''quick_task'' None =
           Inr \<lparr>model = ''llama-3.1-8b-instant'', temperature = 5 / 10, max_tokens = 150,
                system_message = PStr msg_quick_task\<rparr>"
proof -
  from assms have ne: "feature \<noteq> ''daily_planning''" "feature \<noteq> ''weekly_review''"
    "feature \<noteq> ''quick_task''" "feature \<noteq> ''motivational''" "feature \<noteq> ''onboarding''"
    by (auto simp: MODELS_def)
  have unknown: "get_ai_config feature None =
           Inr \<lparr>model = ''llama-3.1-8b-instant'', temperature = 7 / 10, max_tokens = 300,
                system_message = PStr msg_quick_task\<rparr>"
    using ne
    by (simp add: get_ai_config_None get_temperature_def get_max_tokens_def dict_get_def
        MODELS_def TEMPERATURES_def MAX_TOKENS_def DEFAULT_SYSTEM_MESSAGES_def)
  have quick: "get_ai_config ''quick_task'' None =
           Inr \<lparr>model = ''llama-3.1-8b-instant'', temperature = 5 / 10, max_tokens = 150,
                system_message = PStr msg_quick_task\<rparr>"
    by (simp add: get_ai_config_None get_temperature_def get_max_tokens_def dict_get_def
        MODELS_def TEMPERATURES_def MAX_TOKENS_def DEFAULT_SYSTEM_MESSAGES_def)
  from unknown quick show ?thesis by blast
qed

text \<open>Claim C3, the amended statement at the feature name \<open>unknown_feature_xyz\<close>.\<close>

theorem unknown_feature_fallback_witness:
  "''unknown_feature_xyz'' \<notin> set (map fst MODELS)
   \<and> get_ai_config ''unknown_feature_xyz'' None =
       Inr \<lparr>model = ''llama-3.1-8b-instant'', temperature = 7 / 10, max_tokens = 300,
            system_message = PStr msg_quick_task\<rparr>
   \<and> get_ai_config ''quick_task'' None =
       Inr \<lparr>model = ''llama-3.1-8b-instant'', temperature = 5 / 10, max_tokens = 150,
            system_message = PStr msg_quick_task\<rparr>"
proof -
  have h: "''unknown_feature_xyz'' \<notin> set (map fst MODELS)"
    by (simp add: MODELS_def)
  from h unknown_feature_fallback [OF h] show ?thesis by blast
qed

section \<open>The language instruction\<close>

text \<open>
  Claim C4 says that the system message ends with the English instruction when no profile
  is supplied. Without a profile nothing is appended: the system message of
  \<open>daily_planning\<close> is the default text of the feature, which does not end with
  \<open>Respond in English.\<close>
\<close>

theorem no_profile_no_language_instruction:
  "get_ai_config ''daily_planning'' None =
     Inr \<lparr>model = ''llama-3.3-70b-versatile'', temperature = 4 / 10, max_tokens = 500,
          system_message = PStr msg_daily_planning\<rparr>
   \<and> \<not> suffix ''Respond in English.'' msg_daily_planning"
proof -
  have config: "get_ai_config ''daily_planning'' None =
     Inr \<lparr>model = ''llama-3.3-70b-versatile'', temperature = 4 / 10, max_tokens = 500,
          system_message = PStr msg_daily_planning\<rparr>"
    by (simp add: get_ai_config_None get_temperature_def get_max_tokens_def dict_get_def
        MODELS_def TEMPERATURES_def MAX_TOKENS_def DEFAULT_SYSTEM_MESSAGES_def)
  have ending: "\<not> suffix ''Respond in English.'' msg_daily_planning"
    by (simp add: msg_daily_planning_def suffix_to_prefix)
  from config ending show ?thesis by blast
qed

lemma directive_by_language:
  assumes "get_language_code language = Inr code"
  shows "language_directive code = expected_directive language"
proof (cases language)
  case (PStr name)
  with assms have code: "code = dict_get language_mapping name ''en''"
    by (simp add: get_language_code_def)
  show ?thesis
    unfolding code PStr
    by (simp add: dict_get_def language_mapping_def language_directive_def LANGUAGES_def
        expected_directive_def arabic_name_def francais_name_def)
qed (use assms in \<open>simp_all add: get_language_code_def language_directive_def dict_get_def
       LANGUAGES_def expected_directive_def\<close>)

lemma select_text:
  assumes "override_is_text feature profile"
  shows "select_system_message feature (Some profile)
           = Inr (PStr (expected_instruction feature profile))"
proof (cases "map_of profile (''system_message_'' @ feature)")
  case None
  then show ?thesis
    by (simp add: select_default expected_instruction_def)
next
  case (Some v)
  with assms obtain override where "v = PStr override"
    by (cases v) (simp_all add: override_is_text_def is_str_def)
  with Some show ?thesis
    by (simp add: select_override expected_instruction_def)
qed

text \<open>
  Claim C4 as the code has it. For every feature: when the profile has an entry
  \<open>onboarding_data\<close> that is a dict, the language named there (English if none is named) is
  hashable, and the personalised instruction of the profile for the feature, if it has
  one, is a text, the system message is the selected instruction (the personalised one,
  else the default of the feature), a blank line, \<open>IMPORTANT:\<close> and the instruction of
  that language: the German sentence for \<open>Deutsch\<close>, the Arabic and the French one for
  the Arabic and the French name, and \<open>Respond in English.\<close> for \<open>English\<close> and for every
  other value. So it ends with that instruction. When no profile is supplied the system
  message is the default text alone, and when the profile has no entry \<open>onboarding_data\<close>
  it is the selected instruction alone: no language instruction is appended.
\<close>

theorem language_instruction_appended:
  assumes od: "map_of profile ''onboarding_data'' = Some (PDict answers)"
    and lang: "py_hashable (dict_get answers ''language'' (PStr ''English''))"
    and ov: "override_is_text feature profile"
  shows "(\<exists>cfg. get_ai_config feature (Some profile) = Inr cfg
            \<and> system_message cfg =
                PStr (expected_instruction feature profile @ ''\<newline>\<newline>IMPORTANT: ''
                      @ expected_directive (dict_get answers ''language'' (PStr ''English'')))
            \<and> suffix (expected_directive (dict_get answers ''language'' (PStr ''English'')))
                (expected_instruction feature profile @ ''\<newline>\<newline>IMPORTANT: ''
                 @ expected_directive (dict_get answers ''language'' (PStr ''English''))))
       \<and> (\<exists>cfg. get_ai_config feature None = Inr cfg
            \<and> system_message cfg =
                PStr (dict_get DEFAULT_SYSTEM_MESSAGES feature msg_quick_task))
       \<and> (\<forall>other.
            map_of other ''onboarding_data'' = None \<longrightarrow>
            (\<exists>cfg. get_ai_config feature (Some other) = Inr cfg
               \<and> system_message cfg =
                   (case map_of other (''system_message_'' @ feature) of
                      Some override \<Rightarrow> override
                    | None \<Rightarrow> PStr (dict_get DEFAULT_SYSTEM_MESSAGES feature msg_quick_task))))"
proof -
  let ?language = "dict_get answers ''language'' (PStr ''English'')"
  from lang obtain code where code: "get_language_code ?language = Inr code"
    using get_language_code_hashable by blast
  have directive: "language_directive code = expected_directive ?language"
    using code by (rule directive_by_language)
  have with_answers: "\<exists>cfg. get_ai_config feature (Some profile) = Inr cfg
            \<and> system_message cfg =
                PStr (expected_instruction feature profile @ ''\<newline>\<newline>IMPORTANT: ''
                      @ expected_directive ?language)
            \<and> suffix (expected_directive ?language)
                (expected_instruction feature profile @ ''\<newline>\<newline>IMPORTANT: ''
                 @ expected_directive ?language)"
    using select_text [OF ov]
      add_language_present [OF od code, of "PStr (expected_instruction feature profile)"]
    by (simp add: get_ai_config_unfold py_iadd_str_def suffix_def directive)
  have no_profile: "\<exists>cfg. get_ai_config feature None = Inr cfg
            \<and> system_message cfg =
                PStr (dict_get DEFAULT_SYSTEM_MESSAGES feature msg_quick_task)"
    by (simp add: get_ai_config_None)
  have no_answers: "\<exists>cfg. get_ai_config feature (Some other) = Inr cfg
               \<and> system_message cfg =
                   (case map_of other (''system_message_'' @ feature) of
                      Some override \<Rightarrow> override
                    | None \<Rightarrow> PStr (dict_get DEFAULT_SYSTEM_MESSAGES feature msg_quick_task))"
    if "map_of other ''onboarding_data'' = None" for other
    using that
    by (cases "map_of other (''system_message_'' @ feature)")
       (simp_all add: get_ai_config_unfold add_language_absent select_default select_override)
  from with_answers no_profile no_answers show ?thesis by blast
qed

text \<open>
  Claim C4, the amended statement at the profile of the module's test: the answers name
  \<open>Deutsch\<close>, and the system message is the personalised instruction followed by the
  German instruction.
\<close>

theorem language_instruction_appended_witness:
  "map_of mock_profile ''onboarding_data'' = Some (PDict [(''language'', PStr ''Deutsch'')])
   \<and> py_hashable (dict_get [(''language'', PStr ''Deutsch'')] ''language'' (PStr ''English''))
   \<and> override_is_text ''daily_planning'' mock_profile
   \<and> (\<exists>cfg. get_ai_config ''daily_planning'' (Some mock_profile) = Inr cfg
         \<and> system_message cfg =
             PStr ''You are a coach for busy parents...\<newline>\<newline>IMPORTANT: Antworte auf Deutsch.'')"
proof -
  have od: "map_of mock_profile ''onboarding_data'' = Some (PDict [(''language'', PStr ''Deutsch'')])"
    by (simp add: mock_profile_def)
  have lang: "py_hashable (dict_get [(''language'', PStr ''Deutsch'')] ''language'' (PStr ''English''))"
    by (simp add: dict_get_def py_hashable_def)
  have ov: "override_is_text ''daily_planning'' mock_profile"
    by (simp add: override_is_text_def mock_profile_def is_str_def)
  have base: "expected_instruction ''daily_planning'' mock_profile
                = ''You are a coach for busy parents...''"
    by (simp add: expected_instruction_def mock_profile_def)
  have de: "expected_directive (dict_get [(''language'', PStr ''Deutsch'')] ''language'' (PStr ''English''))
              = ''Antworte auf Deutsch.''"
    by (simp add: expected_directive_def dict_get_def)
  from language_instruction_appended [OF od lang ov] base de
  have "\<exists>cfg. get_ai_config ''daily_planning'' (Some mock_profile) = Inr cfg
         \<and> system_message cfg =
             PStr ''You are a coach for busy parents...\<newline>\<newline>IMPORTANT: Antworte auf Deutsch.''"
    by auto
  with od lang ov show ?thesis by blast
qed

section \<open>When the resolution of a configuration returns\<close>

lemma temperature_range: "0 \<le> get_temperature feature \<and> get_temperature feature \<le> 2"
  by (simp add: get_temperature_def dict_get_def TEMPERATURES_def)

lemma max_tokens_positive: "0 < get_max_tokens feature"
  by (simp add: get_max_tokens_def dict_get_def MAX_TOKENS_def)

lemma model_known: "dict_get MODELS feature ''llama-3.1-8b-instant'' \<in> set (map snd MODELS)"
  by (simp add: dict_get_def MODELS_def)

lemma select_total: "\<exists>message. select_system_message feature user_profile = Inr message"
  by (cases user_profile; cases "map_of (the user_profile) (''system_message_'' @ feature)")
     (auto simp: select_None select_default select_override)

lemma get_ai_config_Inr_iff:
  "(\<exists>cfg. get_ai_config feature user_profile = Inr cfg) \<longleftrightarrow> resolvable feature user_profile"
proof (cases user_profile)
  case None
  then show ?thesis by (simp add: get_ai_config_None resolvable_def)
next
  case (Some profile)
  show ?thesis
  proof (cases "map_of profile ''onboarding_data''")
    case None
    obtain message where "select_system_message feature (Some profile) = Inr message"
      using select_total by blast
    with None Some show ?thesis
      by (simp add: get_ai_config_unfold add_language_absent resolvable_def
          onboarding_data_ok_def override_ok_def split: option.splits pyval.splits)
  next
    case od: (Some v)
    have nonempty: "profile \<noteq> []" using od by auto
    show ?thesis
    proof (cases "\<exists>answers. v = PDict answers")
      case False
      then have "add_language_instruction (Some profile) message = Inl AttributeError" for message
        using od nonempty
        by (cases v) (auto simp: add_language_instruction_def dict_contains_def dict_index_def)
      moreover have "\<not> onboarding_data_ok profile"
        using od False by (cases v) (auto simp: onboarding_data_ok_def)
      moreover obtain message where "select_system_message feature (Some profile) = Inr message"
        using select_total by blast
      ultimately show ?thesis using Some
        by (simp add: get_ai_config_unfold resolvable_def)
    next
      case True
      then obtain answers where v: "v = PDict answers" by blast
      let ?lang = "dict_get answers ''language'' (PStr ''English'')"
      show ?thesis
      proof (cases "py_hashable ?lang")
        case False
        then have "add_language_instruction (Some profile) message = Inl TypeError" for message
          using od v nonempty get_language_code_unhashable [OF False]
          by (simp add: add_language_instruction_def dict_contains_def dict_index_def)
        moreover have "\<not> onboarding_data_ok profile"
          using od v False by (simp add: onboarding_data_ok_def)
        moreover obtain message where "select_system_message feature (Some profile) = Inr message"
          using select_total by blast
        ultimately show ?thesis using Some
          by (simp add: get_ai_config_unfold resolvable_def)
      next
        case hash: True
        then obtain code where code: "get_language_code ?lang = Inr code"
          using get_language_code_hashable by blast
        have ok: "onboarding_data_ok profile"
          using od v hash by (simp add: onboarding_data_ok_def)
        note app = add_language_present [OF od [unfolded v] code]
        show ?thesis
        proof (cases "map_of profile (''system_message_'' @ feature)")
          case None
          then show ?thesis using Some ok app
            by (simp add: get_ai_config_unfold select_default py_iadd_str_def resolvable_def
                override_ok_def)
        next
          case ov: (Some w)
          then show ?thesis using Some ok app od
            by (cases w) (simp_all add: get_ai_config_unfold select_override py_iadd_str_def
                resolvable_def override_ok_def)
        qed
      qed
    qed
  qed
qed


lemma resolvable_system_message:
  assumes "onboarding_data_ok profile"
    and "select_system_message feature (Some profile) = Inr (PStr base)"
  shows "\<exists>cfg rest. get_ai_config feature (Some profile) = Inr cfg
           \<and> system_message cfg = PStr (base @ rest)"
proof (cases "map_of profile ''onboarding_data''")
  case None
  with assms(2) show ?thesis
    by (simp add: get_ai_config_unfold add_language_absent)
next
  case (Some v)
  with assms(1) obtain answers where v: "v = PDict answers"
    and hash: "py_hashable (dict_get answers ''language'' (PStr ''English''))"
    by (cases v) (auto simp: onboarding_data_ok_def)
  from hash obtain code
    where code: "get_language_code (dict_get answers ''language'' (PStr ''English'')) = Inr code"
    using get_language_code_hashable by blast
  from Some v have od: "map_of profile ''onboarding_data'' = Some (PDict answers)" by simp
  show ?thesis
    using assms(2) add_language_present [OF od code, of "PStr base"]
    by (simp add: get_ai_config_unfold py_iadd_str_def)
qed

text \<open>
  Claim C7 says that \<open>get_ai_config\<close> never raises, also for a malformed profile. It has
  no handler, and it calls \<open>get\<close> on the entry \<open>onboarding_data\<close>: a profile whose entry is
  a string makes it raise \<open>AttributeError\<close>.
\<close>

theorem malformed_profile_raises:
  "get_ai_config ''daily_planning'' (Some [(''onboarding_data'', PStr ''Deutsch'')])
     = Inl AttributeError"
  by (simp add: get_ai_config_unfold select_default add_language_instruction_def
      dict_contains_def dict_index_def)

text \<open>
  Claim C7 as the code has it. For every feature name, known or not, \<open>get_ai_config\<close>
  returns a configuration exactly for the resolvable profiles: no profile, the empty dict,
  and every dict whose \<open>onboarding_data\<close>, if present, is a dict with a hashable language
  and can take the language instruction. The configuration returned has a model of the
  table, a temperature between 0 and 2 and a positive token limit. For every other
  profile the function raises.
\<close>

theorem get_ai_config_returns_iff_resolvable:
  "(resolvable feature user_profile \<longrightarrow>
      (\<exists>cfg. get_ai_config feature user_profile = Inr cfg
         \<and> model cfg \<in> set (map snd MODELS)
         \<and> 0 \<le> temperature cfg \<and> temperature cfg \<le> 2
         \<and> 0 < max_tokens cfg))
   \<and> (\<not> resolvable feature user_profile \<longrightarrow>
        (\<exists>e. get_ai_config feature user_profile = Inl e))
   \<and> resolvable feature None
   \<and> resolvable feature (Some [])"
proof -
  have ok: "\<exists>cfg. get_ai_config feature user_profile = Inr cfg
         \<and> model cfg \<in> set (map snd MODELS)
         \<and> 0 \<le> temperature cfg \<and> temperature cfg \<le> 2
         \<and> 0 < max_tokens cfg"
    if "resolvable feature user_profile"
  proof -
    from that obtain cfg where cfg: "get_ai_config feature user_profile = Inr cfg"
      using get_ai_config_Inr_iff by blast
    then have "model cfg = dict_get MODELS feature ''llama-3.1-8b-instant''"
      "temperature cfg = get_temperature feature" "max_tokens cfg = get_max_tokens feature"
      by (auto simp: get_ai_config_unfold and_then_def split: sum.splits)
    with cfg show ?thesis
      using model_known [of feature] temperature_range [of feature] max_tokens_positive [of feature]
      by simp
  qed
  have bad: "\<exists>e. get_ai_config feature user_profile = Inl e"
    if "\<not> resolvable feature user_profile"
    using that get_ai_config_Inr_iff [of feature user_profile]
    by (cases "get_ai_config feature user_profile") auto
  have "resolvable feature None" "resolvable feature (Some [])"
    by (simp_all add: resolvable_def onboarding_data_ok_def override_ok_def)
  with ok bad show ?thesis by blast
qed

text \<open>
  Claim C7, the amended statement at \<open>daily_planning\<close>: the profile of the module's test is
  resolvable and gets a configuration; the profile whose \<open>onboarding_data\<close> is a string is
  not resolvable and raises.
\<close>

theorem get_ai_config_returns_iff_resolvable_witness:
  "resolvable ''daily_planning'' (Some mock_profile)
   \<and> (\<exists>cfg. get_ai_config ''daily_planning'' (Some mock_profile) = Inr cfg
         \<and> model cfg \<in> set (map snd MODELS)
         \<and> 0 \<le> temperature cfg \<and> temperature cfg \<le> 2
         \<and> 0 < max_tokens cfg)
   \<and> \<not> resolvable ''daily_planning'' (Some [(''onboarding_data'', PStr ''Deutsch'')])
   \<and> (\<exists>e. get_ai_config ''daily_planning'' (Some [(''onboarding_data'', PStr ''Deutsch'')]) = Inl e)"
proof -
  have good: "resolvable ''daily_planning'' (Some mock_profile)"
    by (simp add: resolvable_def onboarding_data_ok_def override_ok_def mock_profile_def
        dict_get_def py_hashable_def)
  have bad: "\<not> resolvable ''daily_planning'' (Some [(''onboarding_data'', PStr ''Deutsch'')])"
    by (simp add: resolvable_def onboarding_data_ok_def)
  from good bad get_ai_config_returns_iff_resolvable [of "''daily_planning''" "Some mock_profile"]
    get_ai_config_returns_iff_resolvable [of "''daily_planning''" "Some [(''onboarding_data'', PStr ''Deutsch'')]"]
  show ?thesis by blast
qed

section \<open>The personalised instruction\<close>

lemma malformed_onboarding_data_raises:
  assumes "\<not> onboarding_data_ok profile"
  shows "get_ai_config feature (Some profile) = Inl AttributeError
       \<or> get_ai_config feature (Some profile) = Inl TypeError"
proof -
  obtain message where sel: "select_system_message feature (Some profile) = Inr message"
    using select_total by blast
  from assms obtain v where od: "map_of profile ''onboarding_data'' = Some v"
    by (cases "map_of profile ''onboarding_data''") (simp_all add: onboarding_data_ok_def)
  then have nonempty: "profile \<noteq> []" by auto
  show ?thesis
  proof (cases "\<exists>answers. v = PDict answers")
    case False
    then have "add_language_instruction (Some profile) message = Inl AttributeError"
      using od nonempty
      by (cases v) (auto simp: add_language_instruction_def dict_contains_def dict_index_def)
    with sel show ?thesis by (simp add: get_ai_config_unfold)
  next
    case True
    then obtain answers where v: "v = PDict answers" by blast
    with assms od have "\<not> py_hashable (dict_get answers ''language'' (PStr ''English''))"
      by (simp add: onboarding_data_ok_def)
    then have "add_language_instruction (Some profile) message = Inl TypeError"
      using od v nonempty get_language_code_unhashable
      by (simp add: add_language_instruction_def dict_contains_def dict_index_def)
    with sel show ?thesis by (simp add: get_ai_config_unfold)
  qed
qed

text \<open>
  Claim C8 says that for every profile with a personalised instruction for
  \<open>daily_planning\<close> the system message starts with that instruction. A profile that
  carries one and whose \<open>onboarding_data\<close> is a string gets no system message at all: the
  call raises \<open>AttributeError\<close>.
\<close>

theorem override_with_malformed_answers_raises:
  "map_of malformed_profile ''system_message_daily_planning''
     = Some (PStr ''You are a coach for busy parents...'')
   \<and> get_ai_config ''daily_planning'' (Some malformed_profile) = Inl AttributeError"
  by (simp add: malformed_profile_def get_ai_config_unfold select_system_message_def
      add_language_instruction_def dict_contains_def dict_index_def)

text \<open>
  Claim C8 as the code has it. For every profile whose \<open>onboarding_data\<close>, if present, is a
  dict with a hashable language: if the profile carries a text as the personalised
  instruction for \<open>daily_planning\<close>, the system message of the configuration starts with
  that text; if it carries none, the system message starts with the default instruction of
  the feature. For every other profile the call raises \<open>AttributeError\<close> or \<open>TypeError\<close>.
  When no profile is given the system message is the default instruction.
\<close>

theorem override_starts_system_message:
  "(onboarding_data_ok profile \<longrightarrow>
      (\<forall>override. map_of profile ''system_message_daily_planning'' = Some (PStr override) \<longrightarrow>
         (\<exists>cfg message. get_ai_config ''daily_planning'' (Some profile) = Inr cfg
            \<and> system_message cfg = PStr message \<and> prefix override message))
    \<and> (map_of profile ''system_message_daily_planning'' = None \<longrightarrow>
         (\<exists>cfg message. get_ai_config ''daily_planning'' (Some profile) = Inr cfg
            \<and> system_message cfg = PStr message \<and> prefix msg_daily_planning message)))
   \<and> (\<not> onboarding_data_ok profile \<longrightarrow>
        get_ai_config ''daily_planning'' (Some profile) = Inl AttributeError
      \<or> get_ai_config ''daily_planning'' (Some profile) = Inl TypeError)
   \<and> (\<exists>cfg. get_ai_config ''daily_planning'' None = Inr cfg
        \<and> system_message cfg = PStr msg_daily_planning)"
proof -
  have key: "''system_message_'' @ ''daily_planning'' = ''system_message_daily_planning''"
    by simp
  have dflt: "dict_get DEFAULT_SYSTEM_MESSAGES ''daily_planning'' msg_quick_task = msg_daily_planning"
    by (simp add: dict_get_def DEFAULT_SYSTEM_MESSAGES_def)
  have with_override: "\<exists>cfg message. get_ai_config ''daily_planning'' (Some profile) = Inr cfg
               \<and> system_message cfg = PStr message \<and> prefix override message"
    if ok: "onboarding_data_ok profile"
      and ov: "map_of profile ''system_message_daily_planning'' = Some (PStr override)"
    for override
  proof -
    from ov have "select_system_message ''daily_planning'' (Some profile) = Inr (PStr override)"
      using select_override [of profile "''daily_planning''" "PStr override"] key by simp
    from resolvable_system_message [OF ok this] show ?thesis
      by (auto simp: prefix_def)
  qed
  have without: "\<exists>cfg message. get_ai_config ''daily_planning'' (Some profile) = Inr cfg
               \<and> system_message cfg = PStr message \<and> prefix msg_daily_planning message"
    if ok: "onboarding_data_ok profile"
      and none: "map_of profile ''system_message_daily_planning'' = None"
  proof -
    from none have "select_system_message ''daily_planning'' (Some profile)
                      = Inr (PStr msg_daily_planning)"
      using select_default [of profile "''daily_planning''"] key dflt by simp
    from resolvable_system_message [OF ok this] show ?thesis
      by (auto simp: prefix_def)
  qed
  have malformed: "get_ai_config ''daily_planning'' (Some profile) = Inl AttributeError
      \<or> get_ai_config ''daily_planning'' (Some profile) = Inl TypeError"
    if "\<not> onboarding_data_ok profile"
    using that by (rule malformed_onboarding_data_raises)
  have none: "\<exists>cfg. get_ai_config ''daily_planning'' None = Inr cfg
            \<and> system_message cfg = PStr msg_daily_planning"
    by (simp add: get_ai_config_None dflt)
  from with_override without malformed none show ?thesis by blast
qed

text \<open>
  Claim C8, the amended statement at the profile of the module's test, which carries a
  personalised instruction, and at the profile whose \<open>onboarding_data\<close> is a string.
\<close>

theorem override_starts_system_message_witness:
  "onboarding_data_ok mock_profile
   \<and> map_of mock_profile ''system_message_daily_planning''
       = Some (PStr ''You are a coach for busy parents...'')
   \<and> (\<exists>cfg message. get_ai_config ''daily_planning'' (Some mock_profile) = Inr cfg
         \<and> system_message cfg = PStr message
         \<and> prefix ''You are a coach for busy parents...'' message)
   \<and> \<not> onboarding_data_ok malformed_profile
   \<and> (get_ai_config ''daily_planning'' (Some malformed_profile) = Inl AttributeError
      \<or> get_ai_config ''daily_planning'' (Some malformed_profile) = Inl TypeError)"
proof -
  have ok: "onboarding_data_ok mock_profile"
    by (simp add: onboarding_data_ok_def mock_profile_def dict_get_def py_hashable_def)
  have ov: "map_of mock_profile ''system_message_daily_planning''
       = Some (PStr ''You are a coach for busy parents...'')"
    by (simp add: mock_profile_def)
  have bad: "\<not> onboarding_data_ok malformed_profile"
    by (simp add: onboarding_data_ok_def malformed_profile_def)
  from override_starts_system_message [of mock_profile] ok ov
  have good: "\<exists>cfg message. get_ai_config ''daily_planning'' (Some mock_profile) = Inr cfg
         \<and> system_message cfg = PStr message
         \<and> prefix ''You are a coach for busy parents...'' message"
    by blast
  from override_starts_system_message [of malformed_profile] bad
  have raises: "get_ai_config ''daily_planning'' (Some malformed_profile) = Inl AttributeError
      \<or> get_ai_config ''daily_planning'' (Some malformed_profile) = Inl TypeError"
    by blast
  from ok ov good bad raises show ?thesis by blast
qed

section \<open>Facts about the generation of a profile\<close>







lemma validate_fields_all:
  "validate_fields fs p \<longleftrightarrow> (\<forall>f \<in> set fs. dict_contains p f)"
  by (induction fs) auto











text \<open>
  The clean-up of a response on an example: white space and a code fence with the word
  \<open>json\<close> around the document are removed.
\<close>

lemma fenced_response_cleaned:
  "strip_code_fence (py_strip (''  ```json\<newline>'' @ incomplete_response @ ''\<newline>```\<newline>''))
     = incomplete_response"
  by (simp add: strip_code_fence_def py_strip_def incomplete_response_def utf8_width_def
      py_isspace_def whitespace_def)

section \<open>The outcomes of the generation of a profile\<close>




section \<open>The default profile\<close>






section \<open>Facts about the store\<close>

lemma deactivated_none:
  "filter (\<lambda>row. is_active row = 1)
     (map (\<lambda>row. if is_active row = 1 then row\<lparr>is_active := 0\<rparr> else row) rows) = []"
  by (induction rows) auto

lemma first_by_desc_single: "first_by_desc key [row] = [row]"
  by (simp add: first_by_desc_def)

lemma first_by_desc_Nil: "first_by_desc key [] = []"
  by (simp add: first_by_desc_def)

lemma save_user_profile_id: "fst (save_user_profile lib now profile s) = user_profiles_seq s + 1"
  by (simp add: save_user_profile_def Let_def)

lemma save_user_profile_active:
  "filter (\<lambda>row. is_active row = 1) (user_profiles (snd (save_user_profile lib now profile s)))
     = [\<lparr>profile_id = user_profiles_seq s + 1,
         profile_data = json_dumps lib (PDict profile),
         profile_created_at = now,
         profile_updated_at = now,
         is_active = 1\<rparr>]"
  by (simp add: save_user_profile_def Let_def deactivated_none)

lemma save_user_profile_active_rows:
  "active_rows (snd (save_user_profile lib now profile s))
     = [\<lparr>profile_id = user_profiles_seq s + 1,
         profile_data = json_dumps lib (PDict profile),
         profile_created_at = now,
         profile_updated_at = now,
         is_active = 1\<rparr>]"
  by (simp add: active_rows_def save_user_profile_active first_by_desc_single)

lemma save_user_profile_count: "active_count (snd (save_user_profile lib now profile s)) = 1"
  by (simp add: active_count_def save_user_profile_active)

lemma update_in_range:
  assumes "sqlite_integer user_id"
  shows "update_user_profile lib now user_id profile s =
     Inr ((\<exists>row \<in> set (user_profiles s). profile_id row = user_id),
          s\<lparr>user_profiles :=
              map (\<lambda>row. if profile_id row = user_id
                         then row\<lparr>profile_data := json_dumps lib (PDict profile),
                                  profile_updated_at := now\<rparr>
                         else row)
                (user_profiles s)\<rparr>)"
  using assms by (auto simp: update_user_profile_def Let_def filter_empty_conv)

lemma update_out_of_range:
  "\<not> sqlite_integer user_id \<Longrightarrow>
   update_user_profile lib now user_id profile s = Inl OverflowError"
  by (simp add: update_user_profile_def)

lemma active_after_rewrite:
  "filter (\<lambda>row. is_active row = 1)
     (map (\<lambda>row. if profile_id row = user_id
                 then row\<lparr>profile_data := data, profile_updated_at := now\<rparr>
                 else row) rows)
   = map (\<lambda>row. if profile_id row = user_id
                 then row\<lparr>profile_data := data, profile_updated_at := now\<rparr>
                 else row)
       (filter (\<lambda>row. is_active row = 1) rows)"
  by (simp add: filter_map comp_def if_distrib cong: if_cong)

lemma update_user_profile_count:
  "active_count (store_after (update_user_profile lib now user_id profile s) s) = active_count s"
proof (cases "sqlite_integer user_id")
  case True
  then show ?thesis
    by (simp add: update_in_range store_after_def active_count_def active_after_rewrite)
next
  case False
  then show ?thesis
    by (simp add: update_out_of_range store_after_def)
qed

lemma save_daily_plan_ok:
  assumes "sqlite_integer user_id" and "sqlite_real lib hours = Inr stored"
  shows "save_daily_plan lib now user_id date content hours s =
     Inr (daily_plans_seq s + 1,
          s\<lparr>daily_plans := daily_plans s
                @ [\<lparr>plan_id = daily_plans_seq s + 1, plan_user_id = user_id, plan_date = date,
                    plan_content = content, plan_available_hours = stored,
                    plan_created_at = now\<rparr>],
            daily_plans_seq := daily_plans_seq s + 1\<rparr>)"
  using assms by (simp add: save_daily_plan_def Let_def)

lemma save_daily_plan_profiles:
  "user_profiles (store_after (save_daily_plan lib now user_id date content hours s) s)
     = user_profiles s"
  by (cases "sqlite_real lib hours")
     (simp_all add: save_daily_plan_def store_after_def Let_def)

lemma save_weekly_review_profiles:
  "user_profiles (store_after (save_weekly_review now user_id week_start week_end content s) s)
     = user_profiles s"
  by (simp add: save_weekly_review_def store_after_def Let_def)

lemma exec_op_invariant:
  assumes "active_count s \<le> 1"
  shows "active_count (exec_op lib op s) \<le> 1"
proof (cases op)
  case (SaveUserProfile now profile)
  then show ?thesis by (simp add: save_user_profile_count)
next
  case (UpdateUserProfile now user_id profile)
  with assms show ?thesis by (simp add: update_user_profile_count)
next
  case (SaveDailyPlan now user_id date content hours)
  with assms show ?thesis by (simp add: active_count_def save_daily_plan_profiles)
next
  case (SaveWeeklyReview now user_id week_start week_end content)
  with assms show ?thesis by (simp add: active_count_def save_weekly_review_profiles)
qed (use assms in \<open>simp_all add: active_count_def init_database_def reset_database_def
       empty_store_def\<close>)

lemma run_invariant: "active_count s \<le> 1 \<Longrightarrow> active_count (run lib ops s) \<le> 1"
proof (induction ops arbitrary: s)
  case Nil
  then show ?case by simp
next
  case (Cons op ops)
  from Cons.prems have "active_count (exec_op lib op s) \<le> 1"
    by (rule exec_op_invariant)
  then show ?case using Cons.IH by simp
qed

lemma get_active_after_save:
  assumes "json_loads lib (json_dumps lib (PDict profile)) = Some (PDict reread)"
  shows "get_active_user_profile lib (snd (save_user_profile lib now profile s))
     = [Inr (Some (dict_set (dict_set (dict_set reread
                 ''db_id'' (PInt (user_profiles_seq s + 1)))
                 ''db_created_at'' (PStr now))
                 ''db_updated_at'' (PStr now)))]"
  using assms
  by (simp add: get_active_user_profile_def save_user_profile_active_rows profile_of_row_def)

lemma example_roundtrip:
  "json_loads example_lib (json_dumps example_lib (PDict incomplete_object))
     = Some (PDict incomplete_object)"
  by (simp add: example_lib_def)

lemma save_on_empty:
  "save_user_profile lib now profile empty_store =
     (1, empty_store\<lparr>user_profiles :=
            [\<lparr>profile_id = 1, profile_data = json_dumps lib (PDict profile),
              profile_created_at = now, profile_updated_at = now, is_active = 1\<rparr>],
          user_profiles_seq := 1\<rparr>)"
  by (simp add: save_user_profile_def empty_store_def Let_def)

lemma first_by_desc_set:
  "row \<in> set (first_by_desc key rows)
   \<longleftrightarrow> row \<in> set rows \<and> (\<forall>other \<in> set rows. key other \<le> key row)"
  by (auto simp: first_by_desc_def)

lemma greatest_exists:
  "rows \<noteq> [] \<Longrightarrow> \<exists>row \<in> set rows. \<forall>other \<in> set rows. key other \<le> (key row :: string)"
proof (induction rows)
  case Nil
  then show ?case by simp
next
  case (Cons r rows)
  show ?case
  proof (cases "rows = []")
    case True
    then show ?thesis by simp
  next
    case False
    with Cons.IH obtain m where m: "m \<in> set rows" "\<forall>other \<in> set rows. key other \<le> key m"
      by blast
    show ?thesis
    proof (cases "key m \<le> key r")
      case True
      with m have "\<forall>other \<in> set (r # rows). key other \<le> key r" by auto
      then show ?thesis by auto
    next
      case False
      with m have "\<forall>other \<in> set (r # rows). key other \<le> key m" by auto
      with m(1) show ?thesis by auto
    qed
  qed
qed

lemma first_by_desc_nonempty: "rows \<noteq> [] \<Longrightarrow> first_by_desc key rows \<noteq> []"
proof -
  assume "rows \<noteq> []"
  then obtain row where "row \<in> set rows" "\<forall>other \<in> set rows. key other \<le> key row"
    using greatest_exists by blast
  then have "row \<in> set (first_by_desc key rows)" by (simp add: first_by_desc_set)
  then show ?thesis by auto
qed

lemma first_by_desc_latest:
  assumes "\<forall>other \<in> set rows. key other < key row"
  shows "first_by_desc key (rows @ [row]) = [row]"
proof -
  have "filter (\<lambda>r. \<forall>other \<in> set (rows @ [row]). key other \<le> key r) rows = []"
    using assms by (auto simp: filter_empty_conv)
  moreover have "\<forall>other \<in> set (rows @ [row]). key other \<le> key row"
    using assms by auto
  ultimately show ?thesis by (simp add: first_by_desc_def)
qed

lemma matching_appended:
  "matching_plans (s\<lparr>daily_plans := daily_plans s @ [row], daily_plans_seq := n\<rparr>) user_id date
     = matching_plans s user_id date
       @ (if plan_user_id row = user_id \<and> plan_date row = date then [row] else [])"
  by (simp add: matching_plans_def)

section \<open>The single active profile\<close>

text \<open>
  Claim C2: in every state of the store that a sequence of operations reaches from the
  empty one, at most one row of \<open>user_profiles\<close> is active; after a call of
  \<open>save_user_profile\<close>, in any state, exactly one is. After two calls exactly one row is
  active, it is the row of the second call, and \<open>get_active_user_profile\<close> has one
  possible outcome, the second profile with the three \<open>db\<close> entries, whenever
  \<open>json.loads\<close> reads back what \<open>json.dumps\<close> wrote for that profile.
\<close>

theorem single_active_profile:
  "active_count (run lib ops empty_store) \<le> 1
   \<and> active_count (snd (save_user_profile lib now profile s)) = 1
   \<and> (case save_user_profile lib now_a profile_a s of (id1, s1) \<Rightarrow>
        case save_user_profile lib now_b profile_b s1 of (id2, s2) \<Rightarrow>
          active_count s2 = 1
        \<and> active_rows s2 =
            [\<lparr>profile_id = id2,
              profile_data = json_dumps lib (PDict profile_b),
              profile_created_at = now_b,
              profile_updated_at = now_b,
              is_active = 1\<rparr>]
        \<and> (json_loads lib (json_dumps lib (PDict profile_b)) = Some (PDict profile_b) \<longrightarrow>
             get_active_user_profile lib s2 =
               [Inr (Some (dict_set (dict_set (dict_set profile_b
                      ''db_id'' (PInt id2))
                      ''db_created_at'' (PStr now_b))
                      ''db_updated_at'' (PStr now_b)))]))"
proof -
  have reach: "active_count (run lib ops empty_store) \<le> 1"
    by (rule run_invariant) (simp add: active_count_def empty_store_def)
  have one: "active_count (snd (save_user_profile lib now profile s)) = 1"
    by (rule save_user_profile_count)
  have twice: "case save_user_profile lib now_a profile_a s of (id1, s1) \<Rightarrow>
        case save_user_profile lib now_b profile_b s1 of (id2, s2) \<Rightarrow>
          active_count s2 = 1
        \<and> active_rows s2 =
            [\<lparr>profile_id = id2,
              profile_data = json_dumps lib (PDict profile_b),
              profile_created_at = now_b,
              profile_updated_at = now_b,
              is_active = 1\<rparr>]
        \<and> (json_loads lib (json_dumps lib (PDict profile_b)) = Some (PDict profile_b) \<longrightarrow>
             get_active_user_profile lib s2 =
               [Inr (Some (dict_set (dict_set (dict_set profile_b
                      ''db_id'' (PInt id2))
                      ''db_created_at'' (PStr now_b))
                      ''db_updated_at'' (PStr now_b)))])"
  proof -
    obtain id1 s1 where first: "save_user_profile lib now_a profile_a s = (id1, s1)"
      by (cases "save_user_profile lib now_a profile_a s")
    obtain id2 s2 where second: "save_user_profile lib now_b profile_b s1 = (id2, s2)"
      by (cases "save_user_profile lib now_b profile_b s1")
    from second have id2: "user_profiles_seq s1 + 1 = id2"
      and s2: "snd (save_user_profile lib now_b profile_b s1) = s2"
      using save_user_profile_id [of lib now_b profile_b s1] by simp_all
    have count: "active_count s2 = 1"
      using save_user_profile_count [of lib now_b profile_b s1] by (simp add: s2)
    have rows: "active_rows s2 =
            [\<lparr>profile_id = id2,
              profile_data = json_dumps lib (PDict profile_b),
              profile_created_at = now_b,
              profile_updated_at = now_b,
              is_active = 1\<rparr>]"
      using save_user_profile_active_rows [of lib now_b profile_b s1] by (simp add: s2 id2)
    have read: "get_active_user_profile lib s2 =
               [Inr (Some (dict_set (dict_set (dict_set profile_b
                      ''db_id'' (PInt id2))
                      ''db_created_at'' (PStr now_b))
                      ''db_updated_at'' (PStr now_b)))]"
      if "json_loads lib (json_dumps lib (PDict profile_b)) = Some (PDict profile_b)"
      using get_active_after_save [OF that, of now_b s1] by (simp add: s2 id2)
    from count rows read show ?thesis
      by (simp add: first second)
  qed
  from reach one twice show ?thesis by blast
qed

text \<open>
  Claim C2 at two saves into the empty store, the second at an earlier clock reading than
  the first: the profile read back is the second, with the identifier 2.
\<close>

theorem single_active_profile_witness:
  "json_loads example_lib (json_dumps example_lib (PDict incomplete_object))
     = Some (PDict incomplete_object)
   \<and> active_count (run example_lib
        [SaveUserProfile clock_before_shift mock_profile,
         SaveUserProfile clock_after_shift incomplete_object] empty_store) \<le> 1
   \<and> get_active_user_profile example_lib
        (snd (save_user_profile example_lib clock_after_shift incomplete_object
          (snd (save_user_profile example_lib clock_before_shift mock_profile empty_store))))
     = [Inr (Some (dict_set (dict_set (dict_set incomplete_object
                      ''db_id'' (PInt 2))
                      ''db_created_at'' (PStr clock_after_shift))
                      ''db_updated_at'' (PStr clock_after_shift)))]"
proof -
  obtain s1 where first:
    "save_user_profile example_lib clock_before_shift mock_profile empty_store = (1, s1)"
    and seq: "user_profiles_seq s1 = 1"
    by (simp add: save_on_empty)
  obtain s2 where second:
    "save_user_profile example_lib clock_after_shift incomplete_object s1 = (2, s2)"
    using save_user_profile_id [of example_lib clock_after_shift incomplete_object s1] seq
    by (cases "save_user_profile example_lib clock_after_shift incomplete_object s1") simp
  note inst = single_active_profile [where lib = example_lib
      and ops = "[SaveUserProfile clock_before_shift mock_profile,
                  SaveUserProfile clock_after_shift incomplete_object]"
      and s = empty_store and now_a = clock_before_shift and profile_a = mock_profile
      and now_b = clock_after_shift and profile_b = incomplete_object]
  from inst have "active_count (run example_lib
        [SaveUserProfile clock_before_shift mock_profile,
         SaveUserProfile clock_after_shift incomplete_object] empty_store) \<le> 1"
    by (rule conjunct1)
  moreover from inst have "get_active_user_profile example_lib s2
     = [Inr (Some (dict_set (dict_set (dict_set incomplete_object
                      ''db_id'' (PInt 2))
                      ''db_created_at'' (PStr clock_after_shift))
                      ''db_updated_at'' (PStr clock_after_shift)))]"
    unfolding first second prod.case using example_roundtrip by blast
  ultimately show ?thesis
    using example_roundtrip by (simp add: first second)
qed

section \<open>Saving and reading a profile\<close>

lemma stale_roundtrip:
  "json_loads example_lib (json_dumps example_lib (PDict stale_profile)) = Some (PDict stale_profile)"
  by (simp add: example_lib_def stale_profile_def incomplete_object_def stale_document_def
      incomplete_response_def)

text \<open>
  Claim C9 says that the dict read back has the fields of the profile saved. The three
  \<open>db\<close> entries are assigned after the parse: a profile that has an entry \<open>db_id\<close> of its
  own, here 99, is read back with the identifier of its row, 1, in that entry.
\<close>

theorem own_db_id_is_overwritten:
  "map_of stale_profile ''db_id'' = Some (PInt 99)
   \<and> fst (save_user_profile example_lib example_now stale_profile empty_store) = 1
   \<and> get_active_user_profile example_lib
        (snd (save_user_profile example_lib example_now stale_profile empty_store))
     = [Inr (Some [(''coaching_tone'', PStr ''calm''),
                   (''db_id'', PInt 1),
                   (''db_created_at'', PStr example_now),
                   (''db_updated_at'', PStr example_now)])]"
proof -
  have own: "map_of stale_profile ''db_id'' = Some (PInt 99)"
    by (simp add: stale_profile_def)
  have saved: "fst (save_user_profile example_lib example_now stale_profile empty_store) = 1"
    by (simp add: save_on_empty)
  have read: "get_active_user_profile example_lib
        (snd (save_user_profile example_lib example_now stale_profile empty_store))
     = [Inr (Some [(''coaching_tone'', PStr ''calm''),
                   (''db_id'', PInt 1),
                   (''db_created_at'', PStr example_now),
                   (''db_updated_at'', PStr example_now)])]"
    using get_active_after_save [OF stale_roundtrip, of example_now empty_store]
    by (simp add: empty_store_def dict_set_def stale_profile_def)
  from own saved read show ?thesis by blast
qed

text \<open>
  Claim C9 as the code has it. If \<open>save_user_profile\<close> returns an identifier, a call of
  \<open>get_active_user_profile\<close> right after it returns the dict that \<open>json.loads\<close> reads from
  what \<open>json.dumps\<close> wrote for the profile, with \<open>db_id\<close> set to the identifier and
  \<open>db_created_at\<close> and \<open>db_updated_at\<close> set to the time of the save. For a profile that
  \<open>json.loads\<close> reads back unchanged, the dict returned is the profile with these three
  entries set: they replace entries of the profile under the same keys, and every other key
  has what the profile has.
\<close>

theorem save_then_read_profile:
  assumes saved: "save_user_profile lib now profile s = (user_id, s')"
  shows "(\<forall>reread. json_loads lib (json_dumps lib (PDict profile)) = Some (PDict reread) \<longrightarrow>
            get_active_user_profile lib s' =
              [Inr (Some (dict_set (dict_set (dict_set reread
                     ''db_id'' (PInt user_id))
                     ''db_created_at'' (PStr now))
                     ''db_updated_at'' (PStr now)))])
       \<and> (json_loads lib (json_dumps lib (PDict profile)) = Some (PDict profile) \<longrightarrow>
            (\<exists>read. get_active_user_profile lib s' = [Inr (Some read)]
               \<and> map_of read =
                   (map_of profile)(''db_id'' \<mapsto> PInt user_id,
                                    ''db_created_at'' \<mapsto> PStr now,
                                    ''db_updated_at'' \<mapsto> PStr now)))"
proof -
  from saved have user_id: "user_profiles_seq s + 1 = user_id"
    and s': "snd (save_user_profile lib now profile s) = s'"
    using save_user_profile_id [of lib now profile s] by simp_all
  have general: "get_active_user_profile lib s' =
              [Inr (Some (dict_set (dict_set (dict_set reread
                     ''db_id'' (PInt user_id))
                     ''db_created_at'' (PStr now))
                     ''db_updated_at'' (PStr now)))]"
    if "json_loads lib (json_dumps lib (PDict profile)) = Some (PDict reread)" for reread
    using get_active_after_save [OF that, of now s] by (simp add: user_id s')
  have same: "\<exists>read. get_active_user_profile lib s' = [Inr (Some read)]
               \<and> map_of read =
                   (map_of profile)(''db_id'' \<mapsto> PInt user_id,
                                    ''db_created_at'' \<mapsto> PStr now,
                                    ''db_updated_at'' \<mapsto> PStr now)"
    if roundtrip: "json_loads lib (json_dumps lib (PDict profile)) = Some (PDict profile)"
  proof -
    let ?read = "dict_set (dict_set (dict_set profile
                   ''db_id'' (PInt user_id))
                   ''db_created_at'' (PStr now))
                   ''db_updated_at'' (PStr now)"
    have "get_active_user_profile lib s' = [Inr (Some ?read)]"
      using general [OF roundtrip] .
    moreover have "map_of ?read =
                   (map_of profile)(''db_id'' \<mapsto> PInt user_id,
                                    ''db_created_at'' \<mapsto> PStr now,
                                    ''db_updated_at'' \<mapsto> PStr now)"
      by (simp add: dict_set_def update_conv')
    ultimately show ?thesis by blast
  qed
  from general same show ?thesis by blast
qed

text \<open>
  Claim C9, the amended statement at a profile saved into the empty store, which is read
  back with the three entries added and its own entries unchanged.
\<close>

theorem save_then_read_profile_witness:
  "json_loads example_lib (json_dumps example_lib (PDict incomplete_object))
     = Some (PDict incomplete_object)
   \<and> save_user_profile example_lib example_now incomplete_object empty_store
     = (1, snd (save_user_profile example_lib example_now incomplete_object empty_store))
   \<and> (\<exists>read. get_active_user_profile example_lib
                (snd (save_user_profile example_lib example_now incomplete_object empty_store))
              = [Inr (Some read)]
        \<and> map_of read ''db_id'' = Some (PInt 1)
        \<and> map_of read ''db_created_at'' = Some (PStr example_now)
        \<and> map_of read ''db_updated_at'' = Some (PStr example_now)
        \<and> map_of read ''time_block_size'' = Some (PInt 30))"
proof -
  have saved: "save_user_profile example_lib example_now incomplete_object empty_store
     = (1, snd (save_user_profile example_lib example_now incomplete_object empty_store))"
    by (simp add: save_on_empty)
  have field: "map_of incomplete_object ''time_block_size'' = Some (PInt 30)"
    by (simp add: incomplete_object_def)
  from save_then_read_profile [OF saved] example_roundtrip
  obtain read where read: "get_active_user_profile example_lib
                (snd (save_user_profile example_lib example_now incomplete_object empty_store))
              = [Inr (Some read)]"
    and fields: "map_of read =
                   (map_of incomplete_object)(''db_id'' \<mapsto> PInt 1,
                                    ''db_created_at'' \<mapsto> PStr example_now,
                                    ''db_updated_at'' \<mapsto> PStr example_now)"
    by blast
  from fields field have "map_of read ''db_id'' = Some (PInt 1)"
    "map_of read ''db_created_at'' = Some (PStr example_now)"
    "map_of read ''db_updated_at'' = Some (PStr example_now)"
    "map_of read ''time_block_size'' = Some (PInt 30)"
    by simp_all
  with read example_roundtrip saved show ?thesis by blast
qed

section \<open>Updating a profile\<close>

text \<open>
  Claim C10 says that \<open>update_user_profile\<close> returns false when no row has the identifier.
  For an identifier that does not fit in 64 bits, which no row has, the call does not
  return: binding the identifier raises \<open>OverflowError\<close>.
\<close>

theorem update_with_large_id_raises:
  "update_user_profile example_lib example_now 9223372036854775808 incomplete_object empty_store
     = Inl OverflowError"
  by (simp add: update_user_profile_def sqlite_integer_def)

text \<open>
  Claim C10 as the code has it. For an identifier that fits in the 64 bits of an SQLite
  integer, \<open>update_user_profile\<close> returns, and reports success exactly when a row has the
  identifier; when none has, the store is unchanged. The table keeps its length, every
  row keeps its identifier, creation time and active flag, a row with the identifier gets
  the new data and update time, every other row is unchanged, the other tables and the
  counters are unchanged, and the number of active rows is the same. For any other
  identifier the call raises \<open>OverflowError\<close> and the store is as it was.
\<close>

theorem update_user_profile_frame:
  "(\<not> sqlite_integer user_id \<longrightarrow>
      update_user_profile lib now user_id profile s = Inl OverflowError
    \<and> exec_op lib (UpdateUserProfile now user_id profile) s = s)
   \<and> (sqlite_integer user_id \<longrightarrow>
      (\<exists>success s'.
          update_user_profile lib now user_id profile s = Inr (success, s')
        \<and> (success \<longleftrightarrow> (\<exists>row \<in> set (user_profiles s). profile_id row = user_id))
        \<and> (\<not> success \<longrightarrow> s' = s)
        \<and> length (user_profiles s') = length (user_profiles s)
        \<and> (\<forall>i < length (user_profiles s).
              profile_id (user_profiles s' ! i) = profile_id (user_profiles s ! i)
            \<and> profile_created_at (user_profiles s' ! i) = profile_created_at (user_profiles s ! i)
            \<and> is_active (user_profiles s' ! i) = is_active (user_profiles s ! i)
            \<and> (if profile_id (user_profiles s ! i) = user_id
                then profile_data (user_profiles s' ! i) = json_dumps lib (PDict profile)
                   \<and> profile_updated_at (user_profiles s' ! i) = now
                else user_profiles s' ! i = user_profiles s ! i))
        \<and> user_profiles_seq s' = user_profiles_seq s
        \<and> daily_plans s' = daily_plans s \<and> daily_plans_seq s' = daily_plans_seq s
        \<and> weekly_reviews s' = weekly_reviews s \<and> weekly_reviews_seq s' = weekly_reviews_seq s
        \<and> app_metadata s' = app_metadata s
        \<and> active_count s' = active_count s))"
proof -
  have outside: "update_user_profile lib now user_id profile s = Inl OverflowError
    \<and> exec_op lib (UpdateUserProfile now user_id profile) s = s"
    if "\<not> sqlite_integer user_id"
    using that by (simp add: update_out_of_range store_after_def)
  have inside: "\<exists>success s'.
          update_user_profile lib now user_id profile s = Inr (success, s')
        \<and> (success \<longleftrightarrow> (\<exists>row \<in> set (user_profiles s). profile_id row = user_id))
        \<and> (\<not> success \<longrightarrow> s' = s)
        \<and> length (user_profiles s') = length (user_profiles s)
        \<and> (\<forall>i < length (user_profiles s).
              profile_id (user_profiles s' ! i) = profile_id (user_profiles s ! i)
            \<and> profile_created_at (user_profiles s' ! i) = profile_created_at (user_profiles s ! i)
            \<and> is_active (user_profiles s' ! i) = is_active (user_profiles s ! i)
            \<and> (if profile_id (user_profiles s ! i) = user_id
                then profile_data (user_profiles s' ! i) = json_dumps lib (PDict profile)
                   \<and> profile_updated_at (user_profiles s' ! i) = now
                else user_profiles s' ! i = user_profiles s ! i))
        \<and> user_profiles_seq s' = user_profiles_seq s
        \<and> daily_plans s' = daily_plans s \<and> daily_plans_seq s' = daily_plans_seq s
        \<and> weekly_reviews s' = weekly_reviews s \<and> weekly_reviews_seq s' = weekly_reviews_seq s
        \<and> app_metadata s' = app_metadata s
        \<and> active_count s' = active_count s"
    if range: "sqlite_integer user_id"
  proof -
    let ?rewrite = "\<lambda>row. if profile_id row = user_id
                         then row\<lparr>profile_data := json_dumps lib (PDict profile),
                                  profile_updated_at := now\<rparr>
                         else row"
    let ?success = "\<exists>row \<in> set (user_profiles s). profile_id row = user_id"
    let ?s' = "s\<lparr>user_profiles := map ?rewrite (user_profiles s)\<rparr>"
    have upd: "update_user_profile lib now user_id profile s = Inr (?success, ?s')"
      using range by (rule update_in_range)
    have unchanged: "?s' = s" if "\<not> ?success"
    proof -
      from that have "map ?rewrite (user_profiles s) = user_profiles s"
        by (simp add: map_idI)
      then show ?thesis by simp
    qed
    have count: "active_count ?s' = active_count s"
      by (simp add: active_count_def active_after_rewrite)
    have each: "\<forall>i < length (user_profiles s).
              profile_id (user_profiles ?s' ! i) = profile_id (user_profiles s ! i)
            \<and> profile_created_at (user_profiles ?s' ! i) = profile_created_at (user_profiles s ! i)
            \<and> is_active (user_profiles ?s' ! i) = is_active (user_profiles s ! i)
            \<and> (if profile_id (user_profiles s ! i) = user_id
                then profile_data (user_profiles ?s' ! i) = json_dumps lib (PDict profile)
                   \<and> profile_updated_at (user_profiles ?s' ! i) = now
                else user_profiles ?s' ! i = user_profiles s ! i)"
      by simp
    have frame: "length (user_profiles ?s') = length (user_profiles s)"
      "user_profiles_seq ?s' = user_profiles_seq s"
      "daily_plans ?s' = daily_plans s" "daily_plans_seq ?s' = daily_plans_seq s"
      "weekly_reviews ?s' = weekly_reviews s" "weekly_reviews_seq ?s' = weekly_reviews_seq s"
      "app_metadata ?s' = app_metadata s"
      by simp_all
    from upd unchanged count each frame show ?thesis
      by (intro exI [of _ ?success] exI [of _ ?s']) blast
  qed
  from outside inside show ?thesis by blast
qed

text \<open>
  Claim C10, the amended statement at a store with one profile: an update of the
  identifier 7 returns false and the same store, an update of the identifier 1 rewrites
  the data and the update time, and an update of an identifier beyond 64 bits raises.
\<close>

theorem update_user_profile_frame_witness:
  "sqlite_integer 7
   \<and> update_user_profile example_lib clock_after_shift 7 incomplete_object
       (snd (save_user_profile example_lib example_now mock_profile empty_store))
     = Inr (False, snd (save_user_profile example_lib example_now mock_profile empty_store))
   \<and> sqlite_integer 1
   \<and> (\<exists>s'. update_user_profile example_lib clock_after_shift 1 incomplete_object
              (snd (save_user_profile example_lib example_now mock_profile empty_store))
            = Inr (True, s')
        \<and> profile_id (user_profiles s' ! 0) = 1
        \<and> profile_data (user_profiles s' ! 0) = incomplete_response
        \<and> profile_updated_at (user_profiles s' ! 0) = clock_after_shift
        \<and> profile_created_at (user_profiles s' ! 0) = example_now
        \<and> is_active (user_profiles s' ! 0) = 1
        \<and> active_count s' = 1)
   \<and> \<not> sqlite_integer 9223372036854775808
   \<and> update_user_profile example_lib clock_after_shift 9223372036854775808 incomplete_object
       (snd (save_user_profile example_lib example_now mock_profile empty_store))
     = Inl OverflowError"
proof -
  obtain s0 where s0: "snd (save_user_profile example_lib example_now mock_profile empty_store) = s0"
    by simp
  have rows: "user_profiles s0 =
      [\<lparr>profile_id = 1, profile_data = json_dumps example_lib (PDict mock_profile),
        profile_created_at = example_now, profile_updated_at = example_now, is_active = 1\<rparr>]"
    using s0 by (auto simp: save_on_empty)
  have count: "active_count s0 = 1"
    using save_user_profile_count [of example_lib example_now mock_profile empty_store]
    by (simp add: s0)
  have dumps: "json_dumps example_lib (PDict incomplete_object) = incomplete_response"
    by (simp add: example_lib_def)
  have seven: "sqlite_integer 7" and one: "sqlite_integer 1"
    and large: "\<not> sqlite_integer 9223372036854775808"
    by (simp_all add: sqlite_integer_def)
  from update_user_profile_frame [where lib = example_lib and now = clock_after_shift
      and user_id = 7 and profile = incomplete_object and s = s0] seven
  obtain r1 t1 where upd1:
    "update_user_profile example_lib clock_after_shift 7 incomplete_object s0 = Inr (r1, t1)"
    and r1: "r1 \<longleftrightarrow> (\<exists>row \<in> set (user_profiles s0). profile_id row = 7)"
    and t1: "\<not> r1 \<longrightarrow> t1 = s0"
    by blast
  from r1 t1 rows have absent: "r1 = False \<and> t1 = s0" by simp
  from update_user_profile_frame [where lib = example_lib and now = clock_after_shift
      and user_id = 1 and profile = incomplete_object and s = s0] one
  obtain r2 t2 where upd2:
    "update_user_profile example_lib clock_after_shift 1 incomplete_object s0 = Inr (r2, t2)"
    and r2: "r2 \<longleftrightarrow> (\<exists>row \<in> set (user_profiles s0). profile_id row = 1)"
    and each: "\<forall>i < length (user_profiles s0).
              profile_id (user_profiles t2 ! i) = profile_id (user_profiles s0 ! i)
            \<and> profile_created_at (user_profiles t2 ! i) = profile_created_at (user_profiles s0 ! i)
            \<and> is_active (user_profiles t2 ! i) = is_active (user_profiles s0 ! i)
            \<and> (if profile_id (user_profiles s0 ! i) = 1
                then profile_data (user_profiles t2 ! i) = json_dumps example_lib (PDict incomplete_object)
                   \<and> profile_updated_at (user_profiles t2 ! i) = clock_after_shift
                else user_profiles t2 ! i = user_profiles s0 ! i)"
    and same: "active_count t2 = active_count s0"
    by blast
  from each rows have first: "profile_id (user_profiles t2 ! 0) = 1
        \<and> profile_data (user_profiles t2 ! 0) = incomplete_response
        \<and> profile_updated_at (user_profiles t2 ! 0) = clock_after_shift
        \<and> profile_created_at (user_profiles t2 ! 0) = example_now
        \<and> is_active (user_profiles t2 ! 0) = 1"
    by (simp add: dumps)
  from r2 rows have "r2 = True" by simp
  with upd2 first same count have present: "\<exists>s'.
          update_user_profile example_lib clock_after_shift 1 incomplete_object s0 = Inr (True, s')
        \<and> profile_id (user_profiles s' ! 0) = 1
        \<and> profile_data (user_profiles s' ! 0) = incomplete_response
        \<and> profile_updated_at (user_profiles s' ! 0) = clock_after_shift
        \<and> profile_created_at (user_profiles s' ! 0) = example_now
        \<and> is_active (user_profiles s' ! 0) = 1
        \<and> active_count s' = 1"
    by auto
  from update_user_profile_frame [where lib = example_lib and now = clock_after_shift
      and user_id = 9223372036854775808 and profile = incomplete_object and s = s0] large
  have raises: "update_user_profile example_lib clock_after_shift 9223372036854775808
      incomplete_object s0 = Inl OverflowError"
    by blast
  from seven one large absent upd1 present raises show ?thesis
    by (simp add: s0)
qed

section \<open>The plan of a day\<close>

lemma example_hours: "sqlite_real example_lib (PFloat 3) = Inr (PFloat 3)"
  "sqlite_real example_lib (PFloat 2) = Inr (PFloat 2)"
  by (simp_all add: example_lib_def)

lemma two_plans_saved:
  assumes "sqlite_integer user_id"
    and "sqlite_real lib hours_a = Inr stored_a"
    and "sqlite_real lib hours_b = Inr stored_b"
  shows "matching_plans
           (run lib [SaveDailyPlan now_a user_id date content_a hours_a,
                     SaveDailyPlan now_b user_id date content_b hours_b] s) user_id date
         = (matching_plans s user_id date
            @ [\<lparr>plan_id = daily_plans_seq s + 1, plan_user_id = user_id, plan_date = date,
                plan_content = content_a, plan_available_hours = stored_a,
                plan_created_at = now_a\<rparr>])
           @ [\<lparr>plan_id = daily_plans_seq s + 2, plan_user_id = user_id, plan_date = date,
               plan_content = content_b, plan_available_hours = stored_b,
               plan_created_at = now_b\<rparr>]"
  using assms
  by (simp add: save_daily_plan_ok store_after_def matching_plans_def)

text \<open>
  Claim C6 says that after two calls of \<open>save_daily_plan\<close> for the same owner and date,
  \<open>get_daily_plan\<close> returns the second plan. The query orders by the recorded time of
  creation, which is the local clock at the call: when the second call reads an earlier
  time than the first, the plan of the first call is returned.
\<close>

theorem later_save_with_earlier_clock_is_hidden:
  "get_daily_plan
     (run example_lib
        [SaveDailyPlan clock_before_shift 1 ''2024-10-27'' ''first plan'' (PFloat 3),
         SaveDailyPlan clock_after_shift 1 ''2024-10-27'' ''second plan'' (PFloat 2)]
        empty_store)
     1 ''2024-10-27''
   = [Inr (Some [(''id'', PInt 1),
                 (''plan_content'', PStr ''first plan''),
                 (''available_hours'', PFloat 3),
                 (''created_at'', PStr clock_before_shift),
                 (''date'', PStr ''2024-10-27'')])]"
proof -
  have range: "sqlite_integer 1"
    by (simp add: sqlite_integer_def)
  show ?thesis
    unfolding get_daily_plan_def two_plans_saved [OF range example_hours]
    by (simp add: range matching_plans_def empty_store_def first_by_desc_def plan_dict_def
        clock_before_shift_def clock_after_shift_def)
qed

text \<open>
  Claim C6 as the code has it. For an owner outside the 64 bits of an SQLite integer both
  functions raise \<open>OverflowError\<close>. For every other owner: \<open>save_daily_plan\<close> raises what
  the binding of the hours raises, and otherwise appends a row with the next identifier
  and changes nothing else, whatever rows there are for the owner and date.
  \<open>get_daily_plan\<close> always has an outcome; it is the absence of a plan when no row matches,
  and otherwise a matching row whose time of creation is greatest among the matching rows.
  After two saves for the same owner and date whose hours are accepted, the second at a
  time later than the first and than every earlier matching row, the only outcome is the
  second plan, with the hours as the column gives them back.
\<close>

theorem daily_plan_latest_by_created_at:
  "(\<not> sqlite_integer user_id \<longrightarrow>
      save_daily_plan lib now user_id date content hours s = Inl OverflowError
    \<and> get_daily_plan s user_id date = [Inl OverflowError])
   \<and> (sqlite_integer user_id \<longrightarrow>
      (\<forall>e. sqlite_real lib hours = Inl e \<longrightarrow>
         save_daily_plan lib now user_id date content hours s = Inl e)
    \<and> (\<forall>stored. sqlite_real lib hours = Inr stored \<longrightarrow>
         save_daily_plan lib now user_id date content hours s =
           Inr (daily_plans_seq s + 1,
                s\<lparr>daily_plans := daily_plans s
                      @ [\<lparr>plan_id = daily_plans_seq s + 1, plan_user_id = user_id,
                          plan_date = date, plan_content = content,
                          plan_available_hours = stored, plan_created_at = now\<rparr>],
                  daily_plans_seq := daily_plans_seq s + 1\<rparr>))
    \<and> get_daily_plan s user_id date \<noteq> []
    \<and> (\<forall>outcome \<in> set (get_daily_plan s user_id date).
          if matching_plans s user_id date = [] then outcome = Inr None
          else (\<exists>row \<in> set (matching_plans s user_id date).
                  outcome = Inr (Some (plan_dict date row))
                \<and> (\<forall>other \<in> set (matching_plans s user_id date).
                      plan_created_at other \<le> plan_created_at row)))
    \<and> ((\<forall>row \<in> set (matching_plans s user_id date). plan_created_at row < now_b)
          \<and> now_a < now_b
          \<and> sqlite_real lib hours_a = Inr stored_a
          \<and> sqlite_real lib hours_b = Inr stored_b \<longrightarrow>
        get_daily_plan
          (run lib [SaveDailyPlan now_a user_id date content_a hours_a,
                    SaveDailyPlan now_b user_id date content_b hours_b] s)
          user_id date
        = [Inr (Some [(''id'', PInt (daily_plans_seq s + 2)),
                      (''plan_content'', PStr content_b),
                      (''available_hours'', stored_b),
                      (''created_at'', PStr now_b),
                      (''date'', PStr date)])]))"
proof -
  let ?matching = "matching_plans s user_id date"
  let ?first = "first_by_desc plan_created_at ?matching"
  have outside: "save_daily_plan lib now user_id date content hours s = Inl OverflowError
    \<and> get_daily_plan s user_id date = [Inl OverflowError]"
    if "\<not> sqlite_integer user_id"
    using that by (simp add: save_daily_plan_def get_daily_plan_def)
  have refused: "save_daily_plan lib now user_id date content hours s = Inl e"
    if "sqlite_integer user_id" and "sqlite_real lib hours = Inl e" for e
    using that by (simp add: save_daily_plan_def)
  have inserted: "save_daily_plan lib now user_id date content hours s =
           Inr (daily_plans_seq s + 1,
                s\<lparr>daily_plans := daily_plans s
                      @ [\<lparr>plan_id = daily_plans_seq s + 1, plan_user_id = user_id,
                          plan_date = date, plan_content = content,
                          plan_available_hours = stored, plan_created_at = now\<rparr>],
                  daily_plans_seq := daily_plans_seq s + 1\<rparr>)"
    if "sqlite_integer user_id" and "sqlite_real lib hours = Inr stored" for stored
    using that by (rule save_daily_plan_ok)
  have some: "get_daily_plan s user_id date \<noteq> []"
    by (simp add: get_daily_plan_def split: list.splits)
  have outcomes: "\<forall>outcome \<in> set (get_daily_plan s user_id date).
          if ?matching = [] then outcome = Inr None
          else (\<exists>row \<in> set ?matching.
                  outcome = Inr (Some (plan_dict date row))
                \<and> (\<forall>other \<in> set ?matching. plan_created_at other \<le> plan_created_at row))"
    if range: "sqlite_integer user_id"
  proof (cases "?matching = []")
    case True
    with range show ?thesis by (simp add: get_daily_plan_def first_by_desc_Nil)
  next
    case False
    then have "?first \<noteq> []" by (rule first_by_desc_nonempty)
    then have "set (get_daily_plan s user_id date)
                 = (\<lambda>r. Inr (Some (plan_dict date r))) ` set ?first"
      using range by (cases ?first) (simp_all add: get_daily_plan_def)
    with False show ?thesis
      by (auto simp: first_by_desc_set)
  qed
  have twice: "get_daily_plan
          (run lib [SaveDailyPlan now_a user_id date content_a hours_a,
                    SaveDailyPlan now_b user_id date content_b hours_b] s)
          user_id date
        = [Inr (Some [(''id'', PInt (daily_plans_seq s + 2)),
                      (''plan_content'', PStr content_b),
                      (''available_hours'', stored_b),
                      (''created_at'', PStr now_b),
                      (''date'', PStr date)])]"
    if range: "sqlite_integer user_id"
      and earlier: "\<forall>row \<in> set ?matching. plan_created_at row < now_b"
      and order: "now_a < now_b"
      and hours_a: "sqlite_real lib hours_a = Inr stored_a"
      and hours_b: "sqlite_real lib hours_b = Inr stored_b"
  proof -
    let ?row_a = "\<lparr>plan_id = daily_plans_seq s + 1, plan_user_id = user_id, plan_date = date,
           plan_content = content_a, plan_available_hours = stored_a, plan_created_at = now_a\<rparr>"
    let ?row_b = "\<lparr>plan_id = daily_plans_seq s + 2, plan_user_id = user_id, plan_date = date,
           plan_content = content_b, plan_available_hours = stored_b, plan_created_at = now_b\<rparr>"
    have "\<forall>other \<in> set (?matching @ [?row_a]).
            plan_created_at other < plan_created_at ?row_b"
      using earlier order by auto
    then have "first_by_desc plan_created_at ((?matching @ [?row_a]) @ [?row_b]) = [?row_b]"
      by (rule first_by_desc_latest)
    then show ?thesis
      unfolding get_daily_plan_def two_plans_saved [OF range hours_a hours_b]
      by (simp add: range plan_dict_def)
  qed
  from outside refused inserted some outcomes twice show ?thesis by blast
qed

text \<open>
  Claim C6, the amended statement at two saves into the empty store with increasing clock
  readings, and at an owner beyond 64 bits.
\<close>

theorem daily_plan_latest_by_created_at_witness:
  "sqlite_integer 1
   \<and> matching_plans empty_store 1 ''2024-10-27'' = []
   \<and> clock_after_shift < clock_before_shift
   \<and> sqlite_real example_lib (PFloat 3) = Inr (PFloat 3)
   \<and> sqlite_real example_lib (PFloat 2) = Inr (PFloat 2)
   \<and> get_daily_plan
        (run example_lib
           [SaveDailyPlan clock_after_shift 1 ''2024-10-27'' ''first plan'' (PFloat 3),
            SaveDailyPlan clock_before_shift 1 ''2024-10-27'' ''second plan'' (PFloat 2)]
           empty_store)
        1 ''2024-10-27''
      = [Inr (Some [(''id'', PInt 2),
                    (''plan_content'', PStr ''second plan''),
                    (''available_hours'', PFloat 2),
                    (''created_at'', PStr clock_before_shift),
                    (''date'', PStr ''2024-10-27'')])]
   \<and> \<not> sqlite_integer 9223372036854775808
   \<and> get_daily_plan empty_store 9223372036854775808 ''2024-10-27'' = [Inl OverflowError]"
proof -
  have range: "sqlite_integer 1" and large: "\<not> sqlite_integer 9223372036854775808"
    by (simp_all add: sqlite_integer_def)
  have empty: "matching_plans empty_store 1 ''2024-10-27'' = []"
    by (simp add: matching_plans_def empty_store_def)
  have none: "\<forall>row \<in> set (matching_plans empty_store 1 ''2024-10-27'').
                plan_created_at row < clock_before_shift"
    by (simp add: empty)
  have order: "clock_after_shift < clock_before_shift"
    by (simp add: clock_before_shift_def clock_after_shift_def)
  have seq: "daily_plans_seq empty_store + 2 = 2"
    by (simp add: empty_store_def)
  from daily_plan_latest_by_created_at [where s = empty_store and user_id = 1
      and date = "''2024-10-27''" and lib = example_lib
      and now_a = clock_after_shift and now_b = clock_before_shift
      and content_a = "''first plan''" and hours_a = "PFloat 3" and stored_a = "PFloat 3"
      and content_b = "''second plan''" and hours_b = "PFloat 2" and stored_b = "PFloat 2"]
    range none order example_hours
  have second: "get_daily_plan
        (run example_lib
           [SaveDailyPlan clock_after_shift 1 ''2024-10-27'' ''first plan'' (PFloat 3),
            SaveDailyPlan clock_before_shift 1 ''2024-10-27'' ''second plan'' (PFloat 2)]
           empty_store)
        1 ''2024-10-27''
      = [Inr (Some [(''id'', PInt (daily_plans_seq empty_store + 2)),
                    (''plan_content'', PStr ''second plan''),
                    (''available_hours'', PFloat 2),
                    (''created_at'', PStr clock_before_shift),
                    (''date'', PStr ''2024-10-27'')])]"
    by blast
  from daily_plan_latest_by_created_at [where s = empty_store
      and user_id = 9223372036854775808 and date = "''2024-10-27''"] large
  have raises: "get_daily_plan empty_store 9223372036854775808 ''2024-10-27'' = [Inl OverflowError]"
    by blast
  from range empty order example_hours second raises large show ?thesis
    by (simp add: seq)
qed

end
